theory Spec2Isabelle
  imports Complex_Main
begin

section \<open>Amount normalizer: \<open>toRawAmount\<close> (src/src/App.tsx)\<close>

text \<open>
  JavaScript strings are modelled as \<open>string\<close>; every character the function
  inspects (digits, the decimal point, white space) is an ASCII or Latin-1 code
  unit. \<open>bigint\<close> is \<open>int\<close>, the non-negative integer \<open>decimals\<close> is \<open>nat\<close>.
\<close>

datatype amount_error = AmountRequired | AmountNotNumeric

text \<open>\<open>String.prototype.trim\<close>: white space and line terminators, in the 8-bit range.\<close>

definition isWhiteSpace :: "char \<Rightarrow> bool" where
  "isWhiteSpace c = (of_char c \<in> {9::nat, 10, 11, 12, 13, 32, 160})"

definition trim :: "string \<Rightarrow> string" where
  "trim s = rev (dropWhile isWhiteSpace (rev (dropWhile isWhiteSpace s)))"

text \<open>\<open>s.split('.')\<close>: the pieces between separators; \<open>cur\<close> is the piece being read.\<close>

fun split_from :: "char \<Rightarrow> string \<Rightarrow> string \<Rightarrow> string list" where
  "split_from sep cur [] = [cur]"
| "split_from sep cur (c # cs) =
     (if c = sep then cur # split_from sep [] cs else split_from sep (cur @ [c]) cs)"

definition split :: "char \<Rightarrow> string \<Rightarrow> string list" where
  "split sep s = split_from sep [] s"

text \<open>The regular expressions \<open>/^\d+$/\<close> and \<open>/^\d*$/\<close>.\<close>

definition isDigit :: "char \<Rightarrow> bool" where
  "isDigit c = (48 \<le> (of_char c :: nat) \<and> (of_char c :: nat) \<le> 57)"

definition digits1 :: "string \<Rightarrow> bool" where
  "digits1 s = (s \<noteq> [] \<and> list_all isDigit s)"

definition digits0 :: "string \<Rightarrow> bool" where
  "digits0 s = list_all isDigit s"

text \<open>\<open>BigInt(s)\<close> on a string of decimal digits (the only strings it is applied to).\<close>

definition digitValue :: "char \<Rightarrow> int" where
  "digitValue c = int (of_char c) - 48"

definition BigInt :: "string \<Rightarrow> int" where
  "BigInt s = foldl (\<lambda>acc c. 10 * acc + digitValue c) 0 s"

text \<open>
  The destructuring \<open>[whole, frac = ''] = normalized.split('.')\<close> reads the first two
  pieces and ignores any further one; \<open>whole || '0'\<close> replaces an empty first piece.
  The variable \<open>frac\<close> of the code is \<open>fracPart\<close> here.
\<close>

definition toRawAmount :: "string \<Rightarrow> nat \<Rightarrow> amount_error + int" where
  "toRawAmount amount decimals =
     (let normalized = trim amount in
      if normalized = [] then Inl AmountRequired
      else
        let parts = split (CHR ''.'') normalized;
            whole = (case parts of [] \<Rightarrow> [] | p # _ \<Rightarrow> p);
            fracPart = (case parts of _ # f # _ \<Rightarrow> f | _ \<Rightarrow> []);
            safeWhole = (if whole = [] then ''0'' else whole)
        in if \<not> digits1 safeWhole \<or> \<not> digits0 fracPart then Inl AmountNotNumeric
           else
             let padded = take decimals (fracPart @ replicate decimals (CHR ''0''))
             in Inr (BigInt safeWhole * 10 ^ decimals
                     + BigInt (if padded = [] then ''0'' else padded)))"


text \<open>
  The padded fraction in the words of the specification: right-padded with zeros to
  exactly \<open>d\<close> digits, truncated when longer.
\<close>

definition paddedFraction :: "string \<Rightarrow> nat \<Rightarrow> string" where
  "paddedFraction fracPart d =
     (if length fracPart \<le> d then fracPart @ replicate (d - length fracPart) (CHR ''0'')
      else take d fracPart)"

section \<open>JavaScript numbers\<close>

text \<open>
  The values of type \<open>number\<close> the code computes with: \<open>NaN\<close>, the two infinities
  and the finite numbers. A finite double is a rational number; the sign of zero
  plays no role in the code.
\<close>

datatype Number = NaN | NegInfinity | Finite rat | PosInfinity

text \<open>Truthiness, as tested by \<open>x || y\<close> and \<open>x && y\<close>: \<open>NaN\<close> and 0 are falsy.\<close>

fun truthy :: "Number \<Rightarrow> bool" where
  "truthy NaN = False"
| "truthy (Finite q) = (q \<noteq> 0)"
| "truthy NegInfinity = True"
| "truthy PosInfinity = True"

text \<open>The comparison \<open>x > 0\<close>, false for \<open>NaN\<close>.\<close>

fun isPositive :: "Number \<Rightarrow> bool" where
  "isPositive NaN = False"
| "isPositive NegInfinity = False"
| "isPositive (Finite q) = (0 < q)"
| "isPositive PosInfinity = True"

text \<open>\<open>Math.max\<close> and \<open>Math.min\<close> of two numbers: \<open>NaN\<close> if either is.\<close>

fun mathMax :: "Number \<Rightarrow> Number \<Rightarrow> Number" where
  "mathMax NaN y = NaN"
| "mathMax x NaN = NaN"
| "mathMax PosInfinity y = PosInfinity"
| "mathMax x PosInfinity = PosInfinity"
| "mathMax NegInfinity y = y"
| "mathMax x NegInfinity = x"
| "mathMax (Finite a) (Finite b) = Finite (max a b)"


text \<open>\<open>Number.isInteger\<close>.\<close>

fun isInteger :: "Number \<Rightarrow> bool" where
  "isInteger (Finite q) = (of_int \<lfloor>q\<rfloor> = q)"
| "isInteger x = False"

section \<open>Data model (src/src/lib/solana.ts)\<close>

type_synonym PublicKey = string

record Keypair =
  publicKey :: PublicKey
  secretKey :: string

record WalletRef =
  name :: string
  keypair :: Keypair

text \<open>
  \<open>amountRaw\<close> is a \<open>bigint\<close>, the optional \<open>priorityFeeMicrolamports\<close> a \<open>number\<close>;
  \<open>None\<close> is \<open>undefined\<close>.
\<close>

record TransferPlan =
  mint :: PublicKey
  destination :: PublicKey
  amountRaw :: int
  priorityFeeMicrolamports :: "Number option"

text \<open>
  A field of \<open>WalletSendResult\<close> that is absent, or present with the value
  \<open>undefined\<close>, is \<open>None\<close>.
\<close>

record WalletSendResult =
  wallet :: string
  signature :: "string option"
  error :: "string option"

record BlockhashInfo =
  blockhash :: string
  lastValidBlockHeight :: int

text \<open>
  The instructions of a transfer transaction, by what they carry once encoded: the
  price and the limit of the compute budget, the accounts of the idempotent
  creation of an associated token account (payer, account, owner, mint), and
  source, destination, owner and amount of a token transfer. Price and amount are
  encoded in 64 bits.
\<close>

datatype Instruction =
    SetComputeUnitPrice int
  | SetComputeUnitLimit int
  | CreateAssociatedTokenAccountIdempotent PublicKey PublicKey PublicKey PublicKey
  | TransferInstruction PublicKey PublicKey PublicKey int

text \<open>The fields of a web3.js \<open>Transaction\<close> that the code reads or writes.\<close>

record Transaction =
  instructions :: "Instruction list"
  feePayer :: "PublicKey option"
  recentBlockhash :: "string option"
  txLastValidBlockHeight :: "int option"
  signatures :: "(PublicKey \<times> string) list"

text \<open>
  The operations of \<open>@solana/web3.js\<close> and \<open>@solana/spl-token\<close> whose outcome
  depends on their arguments are parameters of the model. Each of them can throw;
  \<open>Inl\<close> (or \<open>Some\<close>, for \<open>serialize\<close>) carries the message of what is thrown.

  \<^item> \<open>getAssociatedTokenAddress(mint, owner)\<close>;
  \<^item> \<open>createTransferInstruction(source, destination, owner, amount)\<close>, which
    encodes the amount;
  \<^item> \<open>ComputeBudgetProgram.setComputeUnitPrice({microLamports})\<close>, which encodes
    the rate;
  \<^item> \<open>tx.sign(signer)\<close>: the signature of the signer under the compiled message
    of the transaction (fee payer, instructions, recent blockhash);
  \<^item> \<open>tx.serialize()\<close>, which compiles the message and verifies the signatures:
    what it throws, if it throws. The wire bytes themselves are represented by the
    transaction.
\<close>

record Externals =
  getAssociatedTokenAddress :: "PublicKey \<Rightarrow> PublicKey \<Rightarrow> string + PublicKey"
  createTransferInstruction ::
    "PublicKey \<Rightarrow> PublicKey \<Rightarrow> PublicKey \<Rightarrow> int \<Rightarrow> string + Instruction"
  setComputeUnitPrice :: "Number \<Rightarrow> string + Instruction"
  signMessage ::
    "Keypair \<Rightarrow> PublicKey option \<times> Instruction list \<times> string option \<Rightarrow> string + string"
  serializeThrows :: "Transaction \<Rightarrow> string option"

section \<open>The relay as seen by the client\<close>

text \<open>
  What one call of \<open>fetch\<close> can yield at each endpoint: the call, or the reading
  of the answer's body, throws; or the relay answers with a non-2xx status; or
  with a 2xx status and a JSON body. The code reads one field of that body
  without checking that it is there: the body of a 2xx answer of \<open>/sendRaw\<close> may
  lack \<open>signature\<close>, that of \<open>/balances\<close> may lack \<open>balances\<close>, and the error body
  of \<open>/sendRaw\<close> may lack \<open>error\<close> (or not be JSON at all). A body that is no
  JSON, or no object, makes the reading throw. A 2xx answer of \<open>/blockhash\<close> is one
  whose body carries the hash and its expiry height.
\<close>

datatype sendRaw_reply =
  SendThrows string | SendNotOk nat "string option" | SendOk "string option"

datatype blockhash_reply = BlockhashThrows string | BlockhashNotOk nat | BlockhashOk BlockhashInfo

datatype balances_reply =
  BalancesThrows string | BalancesNotOk nat | BalancesOk "(string \<rightharpoonup> int) option"

datatype Body =
    NoBody
  | BalancesBody "string list"
  | SendRawBody Transaction "string option" "int option"

record Request =
  url :: string
  httpMethod :: string
  headers :: "(string \<times> string) list"
  body :: Body

datatype Event = Fetch Request | SetTimeout nat | OnResult WalletSendResult

text \<open>
  The world threaded through the asynchronous code: the replies the relay will give
  at each endpoint, by the number of calls made there so far; those numbers; the
  chronological log of network calls (each logged with its answer, when its await
  completes), of timers set and of observer callbacks; and the variable \<open>cachedBh\<close>
  of \<open>executeBatch\<close>, shared with its closure \<open>nextBh\<close>.
\<close>

record World =
  sendRawReplies :: "nat \<Rightarrow> sendRaw_reply"
  blockhashReplies :: "nat \<Rightarrow> blockhash_reply"
  balancesReplies :: "nat \<Rightarrow> balances_reply"
  sendRawCalls :: nat
  blockhashCalls :: nat
  balancesCalls :: nat
  events :: "Event list"
  cachedBh :: "BlockhashInfo option"

text \<open>The decimal rendering of a status code in a template literal.\<close>

fun showNat :: "nat \<Rightarrow> string" where
  "showNat n =
     (if n < 10 then [char_of (48 + n)] else showNat (n div 10) @ [char_of (48 + n mod 10)])"

text \<open>\<open>...(apiKey ? { 'x-api-key': apiKey } : {})\<close>: no header for \<open>undefined\<close> or \<open>''\<close>.\<close>

definition apiKeyHeader :: "string option \<Rightarrow> (string \<times> string) list" where
  "apiKeyHeader apiKey =
     (case apiKey of None \<Rightarrow> [] | Some k \<Rightarrow> if k = [] then [] else [(''x-api-key'', k)])"

section \<open>\<open>fetchBalances\<close> and \<open>fetchBlockhash\<close>\<close>

definition fetchBalances ::
  "PublicKey list \<Rightarrow> string \<Rightarrow> string option \<Rightarrow> World \<Rightarrow> (string + (string \<rightharpoonup> int)) \<times> World"
where
  "fetchBalances pubkeys apiBase apiKey w =
     (if pubkeys = [] then (Inr Map.empty, w)
      else
        let req = \<lparr>url = apiBase @ ''/balances'', httpMethod = ''POST'',
                   headers = (''Content-Type'', ''application/json'') # apiKeyHeader apiKey,
                   body = BalancesBody pubkeys\<rparr>;
            reply = balancesReplies w (balancesCalls w);
            w1 = w\<lparr>balancesCalls := Suc (balancesCalls w), events := events w @ [Fetch req]\<rparr>
        in (case reply of
              BalancesThrows msg \<Rightarrow> (Inl msg, w1)
            | BalancesNotOk status \<Rightarrow> (Inl (''Balance fetch failed: '' @ showNat status), w1)
            | BalancesOk None \<Rightarrow> (Inr Map.empty, w1)
            | BalancesOk (Some balances) \<Rightarrow> (Inr balances, w1)))"

definition fetchBlockhash ::
  "string \<Rightarrow> string option \<Rightarrow> World \<Rightarrow> (string + BlockhashInfo) \<times> World"
where
  "fetchBlockhash apiBase apiKey w =
     (let req = \<lparr>url = apiBase @ ''/blockhash'', httpMethod = ''GET'',
                 headers = apiKeyHeader apiKey, body = NoBody\<rparr>;
          reply = blockhashReplies w (blockhashCalls w);
          w1 = w\<lparr>blockhashCalls := Suc (blockhashCalls w), events := events w @ [Fetch req]\<rparr>
      in (case reply of
            BlockhashThrows msg \<Rightarrow> (Inl msg, w1)
          | BlockhashNotOk status \<Rightarrow> (Inl (''Blockhash fetch failed: '' @ showNat status), w1)
          | BlockhashOk info \<Rightarrow> (Inr info, w1)))"

section \<open>Transaction builder: \<open>applyBlockhash\<close> and \<open>buildTransferTx\<close>\<close>

text \<open>
  \<open>tx.sign(signer)\<close> replaces the signatures of the transaction by the signer's
  signature of its compiled message, or throws.
\<close>

definition sign :: "Externals \<Rightarrow> Transaction \<Rightarrow> Keypair \<Rightarrow> string + Transaction" where
  "sign lib tx signer =
     (case signMessage lib signer (feePayer tx, instructions tx, recentBlockhash tx) of
        Inl e \<Rightarrow> Inl e
      | Inr s \<Rightarrow> Inr (tx\<lparr>signatures := [(publicKey signer, s)]\<rparr>))"

text \<open>
  \<open>applyBlockhash\<close> assigns to two fields of the transaction object it is given and
  signs it. The result is the state it leaves that object in, unless the signing
  throws.
\<close>

definition applyBlockhash ::
  "Externals \<Rightarrow> Transaction \<Rightarrow> Keypair \<Rightarrow> BlockhashInfo \<Rightarrow> string + Transaction"
where
  "applyBlockhash lib tx signer info =
     (let tx1 = tx\<lparr>recentBlockhash := Some (blockhash info)\<rparr>;
          tx2 = tx1\<lparr>txLastValidBlockHeight := Some (lastValidBlockHeight info)\<rparr>
      in sign lib tx2 signer)"

definition newTransaction :: Transaction where
  "newTransaction = \<lparr>instructions = [], feePayer = None, recentBlockhash = None,
                      txLastValidBlockHeight = None, signatures = []\<rparr>"

definition add :: "Transaction \<Rightarrow> Instruction list \<Rightarrow> Transaction" where
  "add tx ixs = tx\<lparr>instructions := instructions tx @ ixs\<rparr>"

text \<open>
  The builder, in the order of its statements: the two addresses, the two token
  instructions, a new transaction, the price instruction when
  \<open>plan.priorityFeeMicrolamports && plan.priorityFeeMicrolamports > 0\<close> (false for
  \<open>undefined\<close>, \<open>NaN\<close>, 0 and a negative rate), the limit and the token instructions,
  the fee payer, the hash and the signature. Whatever a library call throws
  rejects the promise of the builder.
\<close>

definition buildTransferTx ::
  "Externals \<Rightarrow> Keypair \<Rightarrow> TransferPlan \<Rightarrow> BlockhashInfo \<Rightarrow> string + Transaction"
where
  "buildTransferTx lib sender plan blockhashInfo =
     (case getAssociatedTokenAddress lib (mint plan) (publicKey sender) of
        Inl e \<Rightarrow> Inl e
      | Inr fromAta \<Rightarrow>
     (case getAssociatedTokenAddress lib (mint plan) (destination plan) of
        Inl e \<Rightarrow> Inl e
      | Inr toAta \<Rightarrow>
     (case createTransferInstruction lib fromAta toAta (publicKey sender) (amountRaw plan) of
        Inl e \<Rightarrow> Inl e
      | Inr transfer \<Rightarrow>
          let ixs = [CreateAssociatedTokenAccountIdempotent
                       (publicKey sender) toAta (destination plan) (mint plan),
                     transfer];
              tx0 = newTransaction
          in (case (case priorityFeeMicrolamports plan of
                      None \<Rightarrow> Inr tx0
                    | Some fee \<Rightarrow>
                        if truthy fee \<and> isPositive fee
                        then (case setComputeUnitPrice lib fee of
                                Inl e \<Rightarrow> Inl e
                              | Inr price \<Rightarrow> Inr (add tx0 [price]))
                        else Inr tx0) of
                Inl e \<Rightarrow> Inl e
              | Inr tx1 \<Rightarrow>
                  let tx2 = add tx1 (SetComputeUnitLimit 200000 # ixs);
                      tx3 = tx2\<lparr>feePayer := Some (publicKey sender)\<rparr>
                  in applyBlockhash lib tx3 sender blockhashInfo))))"

section \<open>Submission with retry: \<open>sendWithRetry\<close>\<close>

text \<open>
  The test \<open>/BlockhashNotFound|blockhash|expired/i\<close>: one of the three words occurs
  in the message, letter case ignored.
\<close>

definition toLower :: "char \<Rightarrow> char" where
  "toLower c =
     (if 65 \<le> (of_char c :: nat) \<and> (of_char c :: nat) \<le> 90
      then char_of ((of_char c :: nat) + 32) else c)"

fun contains :: "string \<Rightarrow> string \<Rightarrow> bool" where
  "contains pat [] = (pat = [])"
| "contains pat (c # cs) = (take (length pat) (c # cs) = pat \<or> contains pat cs)"

definition needsHash :: "string \<Rightarrow> bool" where
  "needsHash msg =
     (let m = map toLower msg
      in contains ''blockhashnotfound'' m \<or> contains ''blockhash'' m \<or> contains ''expired'' m)"

text \<open>
  What the answer to the POST makes of the \<open>try\<close> block: the message of whatever
  is thrown (\<open>Inl\<close>), which for a non-2xx answer is
  \<open>body.error || `sendRaw failed: ${res.status}`\<close>; or, for a 2xx answer, the
  value of \<open>data.signature\<close> (\<open>Inr\<close>), which is \<open>undefined\<close> when the body has no
  such field.
\<close>

definition attemptOutcome :: "sendRaw_reply \<Rightarrow> string + string option" where
  "attemptOutcome reply =
     (case reply of
        SendThrows msg \<Rightarrow> Inl msg
      | SendNotOk status None \<Rightarrow> Inl (''sendRaw failed: '' @ showNat status)
      | SendNotOk status (Some e) \<Rightarrow>
          Inl (if e = [] then ''sendRaw failed: '' @ showNat status else e)
      | SendOk sig \<Rightarrow> Inr sig)"

definition sendRawRequest :: "string \<Rightarrow> string option \<Rightarrow> Transaction \<Rightarrow> Request" where
  "sendRawRequest apiBase apiKey tx =
     \<lparr>url = apiBase @ ''/sendRaw'', httpMethod = ''POST'',
      headers = (''Content-Type'', ''application/json'') # apiKeyHeader apiKey,
      body = SendRawBody tx (recentBlockhash tx) (txLastValidBlockHeight tx)\<rparr>"

text \<open>
  The body of the \<open>try\<close> block. The request body is computed first: when
  \<open>tx.serialize()\<close> throws, nothing is posted and the message goes to the \<open>catch\<close>
  block.
\<close>

definition postSendRaw ::
  "Externals \<Rightarrow> string \<Rightarrow> string option \<Rightarrow> Transaction \<Rightarrow> World
     \<Rightarrow> (string + string option) \<times> World"
where
  "postSendRaw lib apiBase apiKey tx w =
     (case serializeThrows lib tx of
        Some msg \<Rightarrow> (Inl msg, w)
      | None \<Rightarrow>
          (attemptOutcome (sendRawReplies w (sendRawCalls w)),
           w\<lparr>sendRawCalls := Suc (sendRawCalls w),
             events := events w @ [Fetch (sendRawRequest apiBase apiKey tx)]\<rparr>))"

definition setTimeout :: "nat \<Rightarrow> World \<Rightarrow> World" where
  "setTimeout ms w = w\<lparr>events := events w @ [SetTimeout ms]\<rparr>"

text \<open>
  The \<open>for\<close> loop of \<open>sendWithRetry\<close> from a given value of \<open>attempt\<close>. The argument
  \<open>tx\<close> is the state of the transaction object the caller passed. The result is
  the value the promise resolves with, together with the state the run leaves
  that object in (\<open>Inr\<close>), or the message the promise rejects with (\<open>Inl\<close>):
  \<open>await getBlockhash()\<close> and \<open>applyBlockhash(tx, signer, fresh)\<close> stand in the
  \<open>catch\<close> block, so what they throw leaves the function.
\<close>

function sendWithRetry_loop ::
  "Externals \<Rightarrow> string \<Rightarrow> Keypair \<Rightarrow> string \<Rightarrow> string option
     \<Rightarrow> (World \<Rightarrow> (string + BlockhashInfo) \<times> World) \<Rightarrow> nat
     \<Rightarrow> nat \<Rightarrow> Transaction \<Rightarrow> World \<Rightarrow> (string + WalletSendResult \<times> Transaction) \<times> World"
where
  "sendWithRetry_loop lib walletName signer apiBase apiKey getBlockhash maxRetries attempt tx w =
     (if attempt \<le> maxRetries then
        (case postSendRaw lib apiBase apiKey tx w of
           (Inr sig, w1) \<Rightarrow>
             (Inr (\<lparr>wallet = walletName, signature = sig, error = None\<rparr>, tx), w1)
         | (Inl msg, w1) \<Rightarrow>
             (case (if needsHash msg
                    then (case getBlockhash w1 of
                            (Inl e, w2) \<Rightarrow> Inl (e, w2)
                          | (Inr fresh, w2) \<Rightarrow>
                              (case applyBlockhash lib tx signer fresh of
                                 Inl e \<Rightarrow> Inl (e, w2)
                               | Inr tx' \<Rightarrow> Inr (tx', w2)))
                    else Inr (tx, w1)) of
                Inl (e, w2) \<Rightarrow> (Inl e, w2)
              | Inr (tx', w2) \<Rightarrow>
                  if attempt = maxRetries
                  then (Inr (\<lparr>wallet = walletName, signature = None, error = Some msg\<rparr>, tx'), w2)
                  else sendWithRetry_loop lib walletName signer apiBase apiKey getBlockhash
                         maxRetries (attempt + 1) tx' (setTimeout (150 * attempt) w2)))
      else (Inr (\<lparr>wallet = walletName, signature = None, error = Some ''exhausted retries''\<rparr>, tx),
            w))"
  by pat_completeness auto
termination
  by (relation "measure (\<lambda>(lib, walletName, signer, apiBase, apiKey, getBlockhash, maxRetries,
                            attempt, tx, w). Suc maxRetries - attempt)") auto

declare sendWithRetry_loop.simps [simp del]

text \<open>\<open>maxRetries\<close> is a count, 3 by default; \<open>executeBatch\<close> passes none.\<close>

definition sendWithRetry ::
  "Externals \<Rightarrow> Transaction \<Rightarrow> string \<Rightarrow> Keypair \<Rightarrow> string \<Rightarrow> string option
     \<Rightarrow> (World \<Rightarrow> (string + BlockhashInfo) \<times> World) \<Rightarrow> nat
     \<Rightarrow> World \<Rightarrow> (string + WalletSendResult \<times> Transaction) \<times> World"
where
  "sendWithRetry lib tx walletName signer apiBase apiKey getBlockhash maxRetries w =
     sendWithRetry_loop lib walletName signer apiBase apiKey getBlockhash maxRetries 1 tx w"

definition defaultMaxRetries :: nat where
  "defaultMaxRetries = 3"

text \<open>
  The closure \<open>nextBh\<close> of \<open>executeBatch\<close>: fetch a reference hash and store it in
  \<open>cachedBh\<close>.
\<close>

definition nextBh :: "string \<Rightarrow> string option \<Rightarrow> World \<Rightarrow> (string + BlockhashInfo) \<times> World" where
  "nextBh apiBase apiKey w =
     (case fetchBlockhash apiBase apiKey w of
        (Inl e, w1) \<Rightarrow> (Inl e, w1)
      | (Inr info, w1) \<Rightarrow> (Inr info, w1\<lparr>cachedBh := Some info\<rparr>))"

section \<open>Concurrency: \<open>handleExecute\<close> (src/src/App.tsx) and \<open>p-limit\<close>\<close>



text \<open>
  \<open>pLimit(concurrency)\<close> throws a \<open>TypeError\<close> unless its argument is a positive
  integer or positive infinity. Otherwise the result is the number of tasks the
  pool runs at once; \<open>None\<close> is a pool without bound.
\<close>

definition pLimit :: "Number \<Rightarrow> string + nat option" where
  "pLimit concurrency =
     (if (isInteger concurrency \<or> concurrency = PosInfinity) \<and> isPositive concurrency
      then Inr (case concurrency of Finite q \<Rightarrow> Some (nat \<lfloor>q\<rfloor>) | _ \<Rightarrow> None)
      else Inl ''Expected `concurrency` to be a number from 1 and up'')"

section \<open>A signer run between its awaits\<close>

text \<open>
  \<open>executeBatch\<close> runs several calls of \<open>sendWithRetry\<close> at once; they interleave
  at their \<open>await\<close>s. A run that has not settled is waiting for the answer to its
  POST (\<open>Submitting\<close>), for \<open>getBlockhash()\<close> in the \<open>catch\<close> block, the caught
  message at hand (\<open>Refreshing\<close>), or for the backoff timer (\<open>Waiting\<close>); each
  carries the value of \<open>attempt\<close> and the state of its transaction object. One step
  of a run is the completion of the await it is waiting on, with the code up to
  the next await.
\<close>

datatype Run =
    Submitting nat Transaction
  | Refreshing nat Transaction string
  | Waiting nat Transaction
  | Resolved WalletSendResult
  | Rejected string

fun running :: "Run \<Rightarrow> bool" where
  "running (Resolved r) = False"
| "running (Rejected e) = False"
| "running r = True"

text \<open>The loop test \<open>attempt <= maxRetries\<close>, and the fall-through after the loop.\<close>

definition loopTest :: "string \<Rightarrow> nat \<Rightarrow> nat \<Rightarrow> Transaction \<Rightarrow> Run" where
  "loopTest walletName maxRetries attempt tx =
     (if attempt \<le> maxRetries then Submitting attempt tx
      else Resolved \<lparr>wallet = walletName, signature = None, error = Some ''exhausted retries''\<rparr>)"

text \<open>The end of the \<open>catch\<close> block: return the error on the last attempt, else set the timer.\<close>

definition afterRefresh ::
  "string \<Rightarrow> nat \<Rightarrow> nat \<Rightarrow> Transaction \<Rightarrow> string \<Rightarrow> World \<Rightarrow> Run \<times> World"
where
  "afterRefresh walletName maxRetries attempt tx msg w =
     (if attempt = maxRetries
      then (Resolved \<lparr>wallet = walletName, signature = None, error = Some msg\<rparr>, w)
      else (Waiting attempt tx, setTimeout (150 * attempt) w))"

text \<open>
  The POST is logged when its answer arrives. A transaction that does not
  serialize has no POST to wait for; the step of a run in \<open>Submitting\<close> is then the
  code of the \<open>catch\<close> block up to its first await.
\<close>

fun advance ::
  "Externals \<Rightarrow> string \<Rightarrow> Keypair \<Rightarrow> string \<Rightarrow> string option
     \<Rightarrow> (World \<Rightarrow> (string + BlockhashInfo) \<times> World) \<Rightarrow> nat
     \<Rightarrow> Run \<Rightarrow> World \<Rightarrow> Run \<times> World"
where
  "advance lib walletName signer apiBase apiKey getBlockhash maxRetries (Submitting attempt tx) w =
     (case postSendRaw lib apiBase apiKey tx w of
        (Inr sig, w1) \<Rightarrow>
          (Resolved \<lparr>wallet = walletName, signature = sig, error = None\<rparr>, w1)
      | (Inl msg, w1) \<Rightarrow>
          if needsHash msg then (Refreshing attempt tx msg, w1)
          else afterRefresh walletName maxRetries attempt tx msg w1)"
| "advance lib walletName signer apiBase apiKey getBlockhash maxRetries (Refreshing attempt tx msg) w =
     (case getBlockhash w of
        (Inl e, w1) \<Rightarrow> (Rejected e, w1)
      | (Inr fresh, w1) \<Rightarrow>
          (case applyBlockhash lib tx signer fresh of
             Inl e \<Rightarrow> (Rejected e, w1)
           | Inr tx' \<Rightarrow> afterRefresh walletName maxRetries attempt tx' msg w1))"
| "advance lib walletName signer apiBase apiKey getBlockhash maxRetries (Waiting attempt tx) w =
     (loopTest walletName maxRetries (attempt + 1) tx, w)"
| "advance lib walletName signer apiBase apiKey getBlockhash maxRetries (Resolved r) w =
     (Resolved r, w)"
| "advance lib walletName signer apiBase apiKey getBlockhash maxRetries (Rejected e) w =
     (Rejected e, w)"

text \<open>The number of awaits a run can still pass before it settles.\<close>

fun awaitsLeft :: "nat \<Rightarrow> Run \<Rightarrow> nat" where
  "awaitsLeft maxRetries (Submitting attempt tx) = 3 * (maxRetries - attempt) + 3"
| "awaitsLeft maxRetries (Refreshing attempt tx msg) = 3 * (maxRetries - attempt) + 2"
| "awaitsLeft maxRetries (Waiting attempt tx) = 3 * (maxRetries - attempt) + 1"
| "awaitsLeft maxRetries (Resolved r) = 0"
| "awaitsLeft maxRetries (Rejected e) = 0"

text \<open>A run on its own, carried through its awaits until the promise settles.\<close>

function finish ::
  "Externals \<Rightarrow> string \<Rightarrow> Keypair \<Rightarrow> string \<Rightarrow> string option
     \<Rightarrow> (World \<Rightarrow> (string + BlockhashInfo) \<times> World) \<Rightarrow> nat
     \<Rightarrow> Run \<Rightarrow> World \<Rightarrow> (string + WalletSendResult) \<times> World"
where
  "finish lib walletName signer apiBase apiKey getBlockhash maxRetries run w =
     (case run of
        Resolved r \<Rightarrow> (Inr r, w)
      | Rejected e \<Rightarrow> (Inl e, w)
      | _ \<Rightarrow>
          (case advance lib walletName signer apiBase apiKey getBlockhash maxRetries run w of
             (run', w') \<Rightarrow>
               finish lib walletName signer apiBase apiKey getBlockhash maxRetries run' w'))"
  by pat_completeness auto

lemma advance_awaitsLeft:
  assumes "running run"
    and "advance lib walletName signer apiBase apiKey getBlockhash maxRetries run w = (run', w')"
  shows "awaitsLeft maxRetries run' < awaitsLeft maxRetries run"
  using assms
  by (cases run)
    (auto simp: afterRefresh_def loopTest_def split: prod.splits sum.splits if_splits)

lemma advance_awaits_Submitting:
  "(case advance lib walletName signer apiBase apiKey getBlockhash maxRetries
           (Submitting attempt tx) w of
      (run, w) \<Rightarrow> awaitsLeft maxRetries run) < 3 * (maxRetries - attempt) + 3"
  using advance_awaitsLeft [of "Submitting attempt tx" lib walletName signer apiBase apiKey
      getBlockhash maxRetries w]
  by (cases "advance lib walletName signer apiBase apiKey getBlockhash maxRetries
        (Submitting attempt tx) w") (simp del: advance.simps)

lemma advance_awaits_Refreshing:
  "(case advance lib walletName signer apiBase apiKey getBlockhash maxRetries
           (Refreshing attempt tx msg) w of
      (run, w) \<Rightarrow> awaitsLeft maxRetries run) < Suc (Suc (3 * (maxRetries - attempt)))"
  using advance_awaitsLeft [of "Refreshing attempt tx msg" lib walletName signer apiBase apiKey
      getBlockhash maxRetries w]
  by (cases "advance lib walletName signer apiBase apiKey getBlockhash maxRetries
        (Refreshing attempt tx msg) w") (simp del: advance.simps)

lemma advance_awaits_Waiting:
  "(case advance lib walletName signer apiBase apiKey getBlockhash maxRetries
           (Waiting attempt tx) w of
      (run, w) \<Rightarrow> awaitsLeft maxRetries run) < Suc (3 * (maxRetries - attempt))"
  using advance_awaitsLeft [of "Waiting attempt tx" lib walletName signer apiBase apiKey
      getBlockhash maxRetries w]
  by (cases "advance lib walletName signer apiBase apiKey getBlockhash maxRetries
        (Waiting attempt tx) w") (simp del: advance.simps)

termination finish
  by (relation "measure (\<lambda>(lib, walletName, signer, apiBase, apiKey, getBlockhash, maxRetries,
                            run, w). awaitsLeft maxRetries run)")
    (auto simp del: advance.simps
      simp: advance_awaits_Submitting advance_awaits_Refreshing advance_awaits_Waiting)

declare finish.simps [simp del]

section \<open>Batch dispatcher: \<open>executeBatch\<close>\<close>

text \<open>What the closures of \<open>executeBatch\<close> capture.\<close>

record BatchEnv =
  externals :: Externals
  transferPlan :: TransferPlan
  base :: string
  key :: "string option"

text \<open>
  One task per wallet, in the order of \<open>wallets.map\<close>: waiting in the queue of
  \<open>p-limit\<close>, or started, with the state of its run.
\<close>

datatype Task = Queued WalletRef | Started WalletRef Run

fun active :: "Task \<Rightarrow> bool" where
  "active (Queued wal) = False"
| "active (Started wal run) = running run"


text \<open>
  The tasks, the reason \<open>Promise.all\<close> rejected with if a task has rejected (the
  first one counts), and the world.
\<close>

record Batch =
  tasks :: "Task list"
  rejection :: "string option"
  world :: World

text \<open>
  The start of a task body: \<open>buildTransferTx(wallet.keypair, plan, cachedBh!)\<close>, then
  the entry into \<open>sendWithRetry\<close> with the default \<open>maxRetries\<close>. The builder awaits
  nothing but the derivation of the addresses, which touches neither the relay nor
  \<open>cachedBh\<close>, so that it is taken in one step. With no cached hash the builder
  would dereference \<open>null\<close>.
\<close>

definition startTask :: "BatchEnv \<Rightarrow> WalletRef \<Rightarrow> World \<Rightarrow> Run" where
  "startTask env wal w =
     (case cachedBh w of
        None \<Rightarrow> Rejected ''TypeError: Cannot read properties of null''
      | Some bh \<Rightarrow>
          (case buildTransferTx (externals env) (keypair wal) (transferPlan env) bh of
             Inl e \<Rightarrow> Rejected e
           | Inr tx \<Rightarrow> loopTest (name wal) defaultMaxRetries 1 tx))"

text \<open>
  What follows the settling of a run: a resolved run reports to \<open>onResult\<close>, a
  rejected one makes \<open>Promise.all\<close> reject unless it already has.
\<close>

definition settled :: "Run \<Rightarrow> string option \<Rightarrow> World \<Rightarrow> string option \<times> World" where
  "settled run rej w =
     (case run of
        Resolved r \<Rightarrow> (rej, w\<lparr>events := events w @ [OnResult r]\<rparr>)
      | Rejected e \<Rightarrow> ((case rej of None \<Rightarrow> Some e | Some first \<Rightarrow> Some first), w)
      | _ \<Rightarrow> (rej, w))"

text \<open>
  \<open>p-limit\<close> with \<open>free\<close> free slots starts queued tasks in order; a task that
  settles at once gives its slot back.
\<close>

fun admit ::
  "BatchEnv \<Rightarrow> nat \<Rightarrow> Task list \<Rightarrow> string option \<Rightarrow> World \<Rightarrow> Task list \<times> string option \<times> World"
where
  "admit env 0 ts rej w = (ts, rej, w)"
| "admit env (Suc free) [] rej w = ([], rej, w)"
| "admit env (Suc free) (Queued wal # ts) rej w =
     (let run = startTask env wal w;
          (rej1, w1) = settled run rej w;
          (ts', rej2, w2) = admit env (if running run then free else Suc free) ts rej1 w1
      in (Started wal run # ts', rej2, w2))"
| "admit env (Suc free) (Started wal run # ts) rej w =
     (let (ts', rej', w') = admit env (Suc free) ts rej w in (Started wal run # ts', rej', w'))"

text \<open>
  One step of the batch: the await of task \<open>i\<close> completes and its run goes on to
  its next await. If the run settles, its slot is given to the queue. A step for a
  task that is not active changes nothing.
\<close>

definition batchStep :: "BatchEnv \<Rightarrow> nat \<Rightarrow> Batch \<Rightarrow> Batch" where
  "batchStep env i b =
     (if i < length (tasks b) then
        (case tasks b ! i of
           Queued wal \<Rightarrow> b
         | Started wal run \<Rightarrow>
             if running run then
               (let (run', w1) =
                      advance (externals env) (name wal) (keypair wal) (base env) (key env)
                        (nextBh (base env) (key env)) defaultMaxRetries run (world b);
                    (rej1, w2) = settled run' (rejection b) w1;
                    ts1 = (tasks b)[i := Started wal run'];
                    (ts2, rej2, w3) = admit env (if running run' then 0 else 1) ts1 rej1 w2
                in \<lparr>tasks = ts2, rejection = rej2, world = w3\<rparr>)
             else b)
      else b)"

text \<open>The batch after the awaits listed in a schedule have completed, in that order.\<close>

fun batchSteps :: "BatchEnv \<Rightarrow> nat list \<Rightarrow> Batch \<Rightarrow> Batch" where
  "batchSteps env [] b = b"
| "batchSteps env (i # sched) b = batchSteps env sched (batchStep env i b)"

definition firstActive :: "Task list \<Rightarrow> nat" where
  "firstActive ts = length (takeWhile (\<lambda>t. \<not> active t) ts)"

fun taskAwaits :: "Task \<Rightarrow> nat" where
  "taskAwaits (Queued wal) = Suc (awaitsLeft defaultMaxRetries (Submitting 1 newTransaction))"
| "taskAwaits (Started wal run) = awaitsLeft defaultMaxRetries run"

definition batchAwaits :: "Batch \<Rightarrow> nat" where
  "batchAwaits b = sum_list (map taskAwaits (tasks b))"

text \<open>
  The batch carried to the end. The schedule gives the order in which awaits
  complete; once it is used up, the first active task goes on.
\<close>

function runBatch :: "BatchEnv \<Rightarrow> nat list \<Rightarrow> Batch \<Rightarrow> Batch" where
  "runBatch env sched b =
     (if list_ex active (tasks b) then
        (case sched of
           [] \<Rightarrow> runBatch env [] (batchStep env (firstActive (tasks b)) b)
         | i # rest \<Rightarrow> runBatch env rest (batchStep env i b))
      else b)"
  by pat_completeness auto

lemma startTask_awaits: "awaitsLeft defaultMaxRetries (startTask env wal w) < taskAwaits (Queued wal)"
  by (simp add: startTask_def loopTest_def defaultMaxRetries_def
      split: option.split sum.split)

lemma admit_awaits:
  "admit env free ts rej w = (ts', rej', w') \<Longrightarrow>
   sum_list (map taskAwaits ts') \<le> sum_list (map taskAwaits ts)"
proof (induction env free ts rej w arbitrary: ts' rej' w' rule: admit.induct)
  case (3 env free wal ts rej w)
  obtain rej1 w1 where s: "settled (startTask env wal w) rej w = (rej1, w1)"
    by (cases "settled (startTask env wal w) rej w")
  obtain ts2 rej2 w2 where
    a: "admit env (if running (startTask env wal w) then free else Suc free) ts rej1 w1
          = (ts2, rej2, w2)"
    by (cases "admit env (if running (startTask env wal w) then free else Suc free) ts rej1 w1")
  have "sum_list (map taskAwaits ts2) \<le> sum_list (map taskAwaits ts)"
    using "3.IH" [OF refl s [symmetric] refl a] .
  moreover have "ts' = Started wal (startTask env wal w) # ts2"
    using "3.prems" by (simp add: Let_def s a)
  ultimately show ?case
    using startTask_awaits [of env wal w] by simp
next
  case (4 env free wal run ts rej w)
  obtain ts2 rej2 w2 where a: "admit env (Suc free) ts rej w = (ts2, rej2, w2)"
    by (cases "admit env (Suc free) ts rej w")
  have "sum_list (map taskAwaits ts2) \<le> sum_list (map taskAwaits ts)"
    using "4.IH" a by blast
  moreover have "ts' = Started wal run # ts2"
    using "4.prems" by (simp add: a)
  ultimately show ?case by simp
qed simp_all

lemma sum_list_taskAwaits_update:
  assumes "i < length ts" and "taskAwaits t < taskAwaits (ts ! i)"
  shows "sum_list (map taskAwaits (ts[i := t])) < sum_list (map taskAwaits ts)"
  using assms
proof (induction ts arbitrary: i)
  case Nil
  then show ?case by simp
next
  case (Cons a ts)
  then show ?case by (cases i) (simp_all add: add_less_le_mono)
qed

lemma batchStep_awaits_le: "batchAwaits (batchStep env i b) \<le> batchAwaits b"
proof (cases "i < length (tasks b) \<and> active (tasks b ! i)")
  case False
  then show ?thesis
    by (auto simp: batchStep_def split: Task.split)
next
  case True
  then obtain wal run where t: "tasks b ! i = Started wal run" and r: "running run"
    by (cases "tasks b ! i") auto
  obtain run' w1 where
    adv: "advance (externals env) (name wal) (keypair wal) (base env) (key env)
            (nextBh (base env) (key env)) defaultMaxRetries run (world b) = (run', w1)"
    by (cases "advance (externals env) (name wal) (keypair wal) (base env) (key env)
            (nextBh (base env) (key env)) defaultMaxRetries run (world b)")
  obtain rej1 w2 where s: "settled run' (rejection b) w1 = (rej1, w2)"
    by (cases "settled run' (rejection b) w1")
  obtain ts2 rej2 w3 where
    a: "admit env (if running run' then 0 else 1) ((tasks b)[i := Started wal run']) rej1 w2
          = (ts2, rej2, w3)"
    by (cases "admit env (if running run' then 0 else 1) ((tasks b)[i := Started wal run']) rej1 w2")
  have eq: "batchStep env i b = \<lparr>tasks = ts2, rejection = rej2, world = w3\<rparr>"
    using True t r by (simp add: batchStep_def adv s a)
  have "sum_list (map taskAwaits ((tasks b)[i := Started wal run']))
          < sum_list (map taskAwaits (tasks b))"
    using True t advance_awaitsLeft [OF r adv] by (intro sum_list_taskAwaits_update) simp_all
  with admit_awaits [OF a] show ?thesis
    by (simp add: eq batchAwaits_def)
qed

lemma batchStep_awaits_less:
  assumes "i < length (tasks b)" and "active (tasks b ! i)"
  shows "batchAwaits (batchStep env i b) < batchAwaits b"
proof -
  from assms obtain wal run where t: "tasks b ! i = Started wal run" and r: "running run"
    by (cases "tasks b ! i") auto
  obtain run' w1 where
    adv: "advance (externals env) (name wal) (keypair wal) (base env) (key env)
            (nextBh (base env) (key env)) defaultMaxRetries run (world b) = (run', w1)"
    by (cases "advance (externals env) (name wal) (keypair wal) (base env) (key env)
            (nextBh (base env) (key env)) defaultMaxRetries run (world b)")
  obtain rej1 w2 where s: "settled run' (rejection b) w1 = (rej1, w2)"
    by (cases "settled run' (rejection b) w1")
  obtain ts2 rej2 w3 where
    a: "admit env (if running run' then 0 else 1) ((tasks b)[i := Started wal run']) rej1 w2
          = (ts2, rej2, w3)"
    by (cases "admit env (if running run' then 0 else 1) ((tasks b)[i := Started wal run']) rej1 w2")
  have eq: "batchStep env i b = \<lparr>tasks = ts2, rejection = rej2, world = w3\<rparr>"
    using assms t r by (simp add: batchStep_def adv s a)
  have "sum_list (map taskAwaits ((tasks b)[i := Started wal run']))
          < sum_list (map taskAwaits (tasks b))"
    using assms t advance_awaitsLeft [OF r adv] by (intro sum_list_taskAwaits_update) simp_all
  with admit_awaits [OF a] show ?thesis
    by (simp add: eq batchAwaits_def)
qed

lemma firstActive_active:
  "list_ex active ts \<Longrightarrow> firstActive ts < length ts \<and> active (ts ! firstActive ts)"
  by (induction ts) (auto simp: firstActive_def)

termination runBatch
proof (relation "measures [\<lambda>(env, sched, b). batchAwaits b, \<lambda>(env, sched, b). length sched]")
  show "wf (measures [\<lambda>(env, sched, b). batchAwaits b,
                      \<lambda>(env :: BatchEnv, sched :: nat list, b :: Batch). length sched])"
    by simp
next
  fix env :: BatchEnv and sched :: "nat list" and b :: Batch
  assume "list_ex active (tasks b)"
  then show "((env, [], batchStep env (firstActive (tasks b)) b), env, sched, b)
               \<in> measures [\<lambda>(env, sched, b). batchAwaits b, \<lambda>(env, sched, b). length sched]"
    using batchStep_awaits_less [of "firstActive (tasks b)" b env] firstActive_active [of "tasks b"]
    by simp
next
  fix env :: BatchEnv and sched :: "nat list" and b :: Batch and i rest
  assume "sched = i # rest"
  then show "((env, rest, batchStep env i b), env, sched, b)
               \<in> measures [\<lambda>(env, sched, b). batchAwaits b, \<lambda>(env, sched, b). length sched]"
    using batchStep_awaits_le [of env i b] by auto
qed

declare runBatch.simps [simp del]

text \<open>\<open>Promise.all(tasks)\<close> once every task has settled.\<close>

fun resultOf :: "Task \<Rightarrow> WalletSendResult list" where
  "resultOf (Started wal (Resolved r)) = [r]"
| "resultOf t = []"

definition promiseAll :: "Batch \<Rightarrow> string + WalletSendResult list" where
  "promiseAll b =
     (case rejection b of
        Some e \<Rightarrow> Inl e
      | None \<Rightarrow> Inr (concat (map resultOf (tasks b))))"


text \<open>
  The number of free slots of a new pool, given what \<open>pLimit\<close> returned: a pool
  without bound has a slot for every task.
\<close>

definition slots :: "nat option \<Rightarrow> WalletRef list \<Rightarrow> nat" where
  "slots limit wallets = (case limit of None \<Rightarrow> length wallets | Some k \<Rightarrow> k)"

text \<open>
  The tasks as \<open>wallets.map\<close> leaves them: \<open>p-limit\<close> has started as many of them
  as the pool runs at once and queued the others.
\<close>

definition startBatch :: "BatchEnv \<Rightarrow> nat option \<Rightarrow> WalletRef list \<Rightarrow> World \<Rightarrow> Batch" where
  "startBatch env limit wallets w =
     (case admit env (slots limit wallets) (map Queued wallets) None w of
        (ts, rej, w') \<Rightarrow> \<lparr>tasks = ts, rejection = rej, world = w'\<rparr>)"

text \<open>
  \<open>executeBatch\<close> up to the call of \<open>Promise.all\<close>: the initial reference hash, the
  pool, and the tasks that \<open>wallets.map\<close> hands to it. What \<open>await nextBh()\<close> or
  \<open>pLimit(Math.max(1, concurrency))\<close> throws rejects the promise of \<open>executeBatch\<close>;
  \<open>Inl\<close> carries the message and the world at that point.
\<close>

definition openBatch ::
  "Externals \<Rightarrow> WalletRef list \<Rightarrow> TransferPlan \<Rightarrow> Number \<Rightarrow> string \<Rightarrow> string option
     \<Rightarrow> World \<Rightarrow> string \<times> World + Batch"
where
  "openBatch lib wallets plan concurrency apiBase apiKey w =
     (case nextBh apiBase apiKey w of
        (Inl e, w1) \<Rightarrow> Inl (e, w1)
      | (Inr bh, w1) \<Rightarrow>
          let w2 = w1\<lparr>cachedBh := Some bh\<rparr>
          in (case pLimit (mathMax (Finite 1) concurrency) of
                Inl e \<Rightarrow> Inl (e, w2)
              | Inr limit \<Rightarrow>
                  Inr (startBatch
                         \<lparr>externals = lib, transferPlan = plan, base = apiBase, key = apiKey\<rparr>
                         limit wallets w2)))"

text \<open>
  \<open>executeBatch\<close>. The extra argument \<open>sched\<close> is the order in which the event loop
  completes the awaits of the tasks. The observer \<open>onResult\<close> is the \<open>OnResult\<close>
  events of the world. The world returned is the one in which every task has
  settled: tasks keep running after \<open>Promise.all\<close> has rejected.
\<close>

definition executeBatch ::
  "Externals \<Rightarrow> nat list \<Rightarrow> WalletRef list \<Rightarrow> TransferPlan \<Rightarrow> Number \<Rightarrow> string \<Rightarrow> string option
     \<Rightarrow> World \<Rightarrow> (string + WalletSendResult list) \<times> World"
where
  "executeBatch lib sched wallets plan concurrency apiBase apiKey w =
     (case openBatch lib wallets plan concurrency apiBase apiKey w of
        Inl (e, w') \<Rightarrow> (Inl e, w')
      | Inr b0 \<Rightarrow>
          let b = runBatch \<lparr>externals = lib, transferPlan = plan, base = apiBase, key = apiKey\<rparr>
                    sched b0
          in (promiseAll b, world b))"

section \<open>Notions used in the statements\<close>


text \<open>The promise of a run: what it settles with, without the state of the transaction.\<close>

definition outcomeOnly ::
  "(string + WalletSendResult \<times> Transaction) \<times> World \<Rightarrow> (string + WalletSendResult) \<times> World"
where
  "outcomeOnly result = (case result of (Inl e, w) \<Rightarrow> (Inl e, w) | (Inr (r, tx), w) \<Rightarrow> (Inr r, w))"



text \<open>A reply that makes the attempt fail with a message that is no staleness message.\<close>

definition plainFailure :: "sendRaw_reply \<Rightarrow> bool" where
  "plainFailure reply = (case attemptOutcome reply of Inl msg \<Rightarrow> \<not> needsHash msg | Inr sig \<Rightarrow> False)"

definition linearBackoff :: "Request \<Rightarrow> nat \<Rightarrow> Event list" where
  "linearBackoff req maxRetries =
     concat (map (\<lambda>attempt. if attempt < maxRetries
                             then [Fetch req, SetTimeout (150 * attempt)] else [Fetch req])
                 [1..<Suc maxRetries])"

text \<open>
  The library encodes exactly what it is given when that fits 64 bits: a rate and
  an amount from 0 up to, not including, 2 to the power 64.
\<close>

definition encodesU64 :: "Externals \<Rightarrow> bool" where
  "encodesU64 lib =
     ((\<forall>k. 0 \<le> k \<and> k < 2 ^ 64 \<longrightarrow>
          setComputeUnitPrice lib (Finite (of_int k)) = Inr (SetComputeUnitPrice k))
      \<and> (\<forall>source dest owner k. 0 \<le> k \<and> k < 2 ^ 64 \<longrightarrow>
            createTransferInstruction lib source dest owner k
              = Inr (TransferInstruction source dest owner k)))"

text \<open>A rate that is a whole number from 0 up to, not including, 2 to the power 64.\<close>

definition u64Rate :: "Number \<Rightarrow> bool" where
  "u64Rate fee = (case fee of Finite q \<Rightarrow> of_int \<lfloor>q\<rfloor> = q \<and> 0 \<le> q \<and> q < 2 ^ 64 | _ \<Rightarrow> False)"

text \<open>
  The instructions of the transfer transaction in the words of the specification:
  a priority-fee instruction exactly when the rate is greater than 0, the
  compute-budget ceiling, the idempotent creation of the destination's token
  sub-account, and the transfer of exactly \<open>amountRaw\<close> between the two
  sub-accounts.
\<close>

definition specInstructions ::
  "Keypair \<Rightarrow> TransferPlan \<Rightarrow> PublicKey \<Rightarrow> PublicKey \<Rightarrow> Instruction list"
where
  "specInstructions sender plan fromAta toAta =
     (case priorityFeeMicrolamports plan of
        Some (Finite q) \<Rightarrow> if 0 < q then [SetComputeUnitPrice \<lfloor>q\<rfloor>] else []
      | _ \<Rightarrow> [])
     @ [SetComputeUnitLimit 200000,
        CreateAssociatedTokenAccountIdempotent
          (publicKey sender) toAta (destination plan) (mint plan),
        TransferInstruction fromAta toAta (publicKey sender) (amountRaw plan)]"





text \<open>
  The relay answers every request for a reference hash with a 2xx status and a
  body that carries the hash and its expiry height.
\<close>

definition relayServesHashes :: "World \<Rightarrow> bool" where
  "relayServesHashes w = (\<forall>n. case blockhashReplies w n of BlockhashOk info \<Rightarrow> True | _ \<Rightarrow> False)"








section \<open>Concrete scenarios\<close>

text \<open>
  The libraries, as far as the scenarios need them. An associated token address
  is written \<open>mint/owner\<close>, the signature of the owner of \<open>publicKey\<close> under a
  message with recent blockhash \<open>h\<close> is written \<open>publicKey/h\<close>.

  The transfer instruction of \<open>@solana/spl-token\<close> lays the amount out in eight
  bytes from its hexadecimal digits, of which it keeps the first sixteen.
  \<open>setComputeUnitPrice\<close> converts the rate with \<open>BigInt\<close> and encodes it as an
  unsigned 64-bit integer; it throws for a rate that is not a whole number in
  that range. \<open>tx.sign\<close> throws for a transaction without recent blockhash and
  for a signer that is no account of the transaction. \<open>tx.serialize\<close> throws for
  a transaction without recent blockhash and for one whose signatures are not
  those of its fee payer under its recent blockhash.
\<close>

function u64Kept :: "int \<Rightarrow> int" where
  "u64Kept amount = (if amount < 2 ^ 64 then amount else u64Kept (amount div 16))"
  by pat_completeness auto
termination
  by (relation "measure nat") auto

declare u64Kept.simps [simp del]

fun accounts :: "Instruction \<Rightarrow> PublicKey list" where
  "accounts (SetComputeUnitPrice k) = []"
| "accounts (SetComputeUnitLimit k) = []"
| "accounts (CreateAssociatedTokenAccountIdempotent payer ata owner m) = [payer, ata, owner, m]"
| "accounts (TransferInstruction source dest owner k) = [source, dest, owner]"

definition demoLib :: Externals where
  "demoLib =
     \<lparr>getAssociatedTokenAddress = (\<lambda>m owner. Inr (m @ ''/'' @ owner)),
      createTransferInstruction =
        (\<lambda>source dest owner amount. Inr (TransferInstruction source dest owner (u64Kept amount))),
      setComputeUnitPrice =
        (\<lambda>fee. case fee of
                  Finite q \<Rightarrow>
                    if of_int \<lfloor>q\<rfloor> = q \<and> 0 \<le> q \<and> q < 2 ^ 64
                    then Inr (SetComputeUnitPrice \<lfloor>q\<rfloor>)
                    else Inl ''RangeError''
                | _ \<Rightarrow> Inl ''RangeError''),
      signMessage =
        (\<lambda>signer (payer, ixs, bh).
           case bh of
             None \<Rightarrow> Inl ''Transaction recentBlockhash required''
           | Some h \<Rightarrow>
               if payer = None \<or> payer = Some (publicKey signer)
                  \<or> publicKey signer \<in> set (concat (map accounts ixs))
               then Inr (publicKey signer @ ''/'' @ h)
               else Inl (''unknown signer: '' @ publicKey signer)),
      serializeThrows =
        (\<lambda>tx. case recentBlockhash tx of
                 None \<Rightarrow> Some ''Transaction recentBlockhash required''
               | Some h \<Rightarrow>
                   (case (feePayer tx, signatures tx) of
                      (Some payer, [(signer, s)]) \<Rightarrow>
                        if signer = payer \<and> s = payer @ ''/'' @ h then None
                        else Some ''Signature verification failed.''
                    | _ \<Rightarrow> Some ''Signature verification failed.''))\<rparr>"


definition wallet1 :: WalletRef where
  "wallet1 = \<lparr>name = ''w1'', keypair = \<lparr>publicKey = ''PK1'', secretKey = ''SK1''\<rparr>\<rparr>"

definition wallet2 :: WalletRef where
  "wallet2 = \<lparr>name = ''w2'', keypair = \<lparr>publicKey = ''PK2'', secretKey = ''SK2''\<rparr>\<rparr>"


definition demoPlan :: TransferPlan where
  "demoPlan = \<lparr>mint = ''MINT'', destination = ''DEST'', amountRaw = 1250000,
               priorityFeeMicrolamports = Some (Finite 5000)\<rparr>"

definition hash1 :: BlockhashInfo where
  "hash1 = \<lparr>blockhash = ''H1'', lastValidBlockHeight = 100\<rparr>"

definition hash2 :: BlockhashInfo where
  "hash2 = \<lparr>blockhash = ''H2'', lastValidBlockHeight = 200\<rparr>"

definition relay :: "(nat \<Rightarrow> sendRaw_reply) \<Rightarrow> (nat \<Rightarrow> blockhash_reply) \<Rightarrow> World" where
  "relay sends hashes =
     \<lparr>sendRawReplies = sends, blockhashReplies = hashes, balancesReplies = (\<lambda>n. BalancesOk None),
      sendRawCalls = 0, blockhashCalls = 0, balancesCalls = 0, events = [], cachedBh = None\<rparr>"


text \<open>The transaction the builder makes for the first wallet, and the same after a refresh.\<close>

definition demoTx :: Transaction where
  "demoTx =
     \<lparr>instructions =
        [SetComputeUnitPrice 5000, SetComputeUnitLimit 200000,
         CreateAssociatedTokenAccountIdempotent ''PK1'' ''MINT/DEST'' ''DEST'' ''MINT'',
         TransferInstruction ''MINT/PK1'' ''MINT/DEST'' ''PK1'' 1250000],
      feePayer = Some ''PK1'', recentBlockhash = Some ''H1'',
      txLastValidBlockHeight = Some 100, signatures = [(''PK1'', ''PK1/H1'')]\<rparr>"

definition patchedTx :: Transaction where
  "patchedTx = demoTx\<lparr>recentBlockhash := Some ''H2'', txLastValidBlockHeight := Some 200,
                      signatures := [(''PK1'', ''PK1/H2'')]\<rparr>"

definition staleOnceRelay :: World where
  "staleOnceRelay =
     relay (\<lambda>n. if n = 0 then SendNotOk 500 (Some ''Blockhash not found'')
                 else SendOk (Some ''5sig''))
           (\<lambda>n. BlockhashOk hash2)"

definition failingRelay :: World where
  "failingRelay =
     relay (\<lambda>n. if n = 2 then SendThrows ''Failed to fetch''
                 else SendNotOk 400 (Some ''insufficient funds''))
           (\<lambda>n. BlockhashOk hash1)"

definition refreshDownRelay :: World where
  "refreshDownRelay =
     relay (\<lambda>n. if n = 0 then SendNotOk 500 (Some ''Blockhash not found'')
                 else SendOk (Some ''5sig''))
           (\<lambda>n. if n = 0 then BlockhashOk hash1 else BlockhashNotOk 500)"




section \<open>Properties of the amount normalizer\<close>

lemma dropWhile_none: "list_all (\<lambda>c. \<not> P c) s \<Longrightarrow> dropWhile P s = s"
  by (cases s) auto

lemma trim_id: "list_all (\<lambda>c. \<not> isWhiteSpace c) s \<Longrightarrow> trim s = s"
  by (simp add: trim_def dropWhile_none list_all_iff)

lemma split_from_append:
  "sep \<notin> set w \<Longrightarrow> split_from sep cur (w @ rest) = split_from sep (cur @ w) rest"
  by (induction w arbitrary: cur) auto

lemma split_no_sep: "sep \<notin> set w \<Longrightarrow> split sep w = [w]"
  using split_from_append [of sep w "[]" "[]"] by (simp add: split_def)

lemma split_one_sep:
  "sep \<notin> set w \<Longrightarrow> sep \<notin> set f \<Longrightarrow> split sep (w @ sep # f) = [w, f]"
  using split_from_append [of sep w "[]" "sep # f"] split_from_append [of sep f "[]" "[]"]
  by (simp add: split_def)

lemma split_two_pieces:
  "sep \<notin> set w \<Longrightarrow> sep \<notin> set f \<Longrightarrow> \<exists>ps. split sep (w @ sep # f @ sep # rest) = w # f # ps"
  using split_from_append [of sep w "[]" "sep # f @ sep # rest"]
    split_from_append [of sep f "[]" "sep # rest"]
  by (simp add: split_def)

lemma isDigit_not_ws: "isDigit c \<Longrightarrow> \<not> isWhiteSpace c"
  by (auto simp: isDigit_def isWhiteSpace_def)

lemma isDigit_not_dot: "isDigit c \<Longrightarrow> c \<noteq> CHR ''.''"
  by (auto simp: isDigit_def)

lemma dot_not_ws: "\<not> isWhiteSpace (CHR ''.'')"
  by (simp add: isWhiteSpace_def)

lemma digits0_no_dot: "digits0 s \<Longrightarrow> CHR ''.'' \<notin> set s"
  by (auto simp: digits0_def list_all_iff dest: isDigit_not_dot)

lemma digits0_no_ws: "digits0 s \<Longrightarrow> list_all (\<lambda>c. \<not> isWhiteSpace c) s"
  by (auto simp: digits0_def list_all_iff dest: isDigit_not_ws)

lemma BigInt_snoc: "BigInt (s @ [c]) = BigInt s * 10 + digitValue c"
  by (simp add: BigInt_def)

lemma foldl_BigInt_shift:
  "foldl (\<lambda>acc c. 10 * acc + digitValue c) a ys = a * 10 ^ length ys + BigInt ys"
proof (induction ys rule: rev_induct)
  case Nil
  show ?case by (simp add: BigInt_def)
next
  case (snoc y ys)
  have "foldl (\<lambda>acc c. 10 * acc + digitValue c) a (ys @ [y])
          = 10 * foldl (\<lambda>acc c. 10 * acc + digitValue c) a ys + digitValue y"
    by simp
  also have "\<dots> = 10 * (a * 10 ^ length ys + BigInt ys) + digitValue y"
    by (simp only: snoc.IH)
  also have "\<dots> = a * 10 ^ length (ys @ [y]) + BigInt (ys @ [y])"
    by (simp add: BigInt_snoc algebra_simps)
  finally show ?case .
qed

lemma BigInt_append: "BigInt (xs @ ys) = BigInt xs * 10 ^ length ys + BigInt ys"
  unfolding BigInt_def [of "xs @ ys"] foldl_append
  using foldl_BigInt_shift [of "foldl (\<lambda>acc c. 10 * acc + digitValue c) 0 xs" ys]
  by (simp add: BigInt_def)

lemma BigInt_zeros: "BigInt (replicate n (CHR ''0'')) = 0"
  by (induction n) (simp_all add: BigInt_def digitValue_def)

lemma BigInt_or0: "BigInt (if s = [] then ''0'' else s) = BigInt s"
  by (simp add: BigInt_def digitValue_def)

lemma digit_code_range: "48 \<le> (n::nat) \<and> n \<le> 57 \<Longrightarrow> 0 \<le> int n - 48 \<and> int n - 48 \<le> 9"
  by linarith

lemma digitValue_range: "isDigit c \<Longrightarrow> 0 \<le> digitValue c \<and> digitValue c \<le> 9"
  using digit_code_range [of "of_char c"] unfolding isDigit_def digitValue_def by blast

lemma BigInt_range: "digits0 s \<Longrightarrow> 0 \<le> BigInt s \<and> BigInt s < 10 ^ length s"
proof (induction s rule: rev_induct)
  case Nil
  then show ?case by (simp add: BigInt_def)
next
  case (snoc c s)
  then have d: "isDigit c" and s: "digits0 s" by (simp_all add: digits0_def)
  from snoc.IH [OF s] digitValue_range [OF d] show ?case
    unfolding BigInt_snoc by simp
qed

lemma BigInt_take:
  assumes "digits0 s"
  shows "BigInt (take d s) = BigInt s div 10 ^ (length s - d)"
proof -
  have ds: "digits0 (drop d s)" using assms by (simp add: digits0_def list_all_iff) (meson in_set_dropD)
  have "BigInt s = BigInt (take d s) * 10 ^ length (drop d s) + BigInt (drop d s)"
    using BigInt_append [of "take d s" "drop d s"] by simp
  moreover note BigInt_range [OF ds]
  ultimately show ?thesis by (simp add: div_pos_pos_trivial)
qed

lemma BigInt_paddedFraction:
  assumes "digits0 f"
  shows "BigInt (paddedFraction f d) = BigInt f * 10 ^ d div 10 ^ length f"
proof (cases "length f \<le> d")
  case True
  then have "paddedFraction f d = f @ replicate (d - length f) (CHR ''0'')"
    by (simp add: paddedFraction_def)
  then have "BigInt (paddedFraction f d) = BigInt f * 10 ^ (d - length f)"
    by (simp add: BigInt_append BigInt_zeros)
  moreover have "(10::int) ^ d = 10 ^ (d - length f) * 10 ^ length f"
    using True by (simp flip: power_add)
  ultimately show ?thesis by simp
next
  case False
  then have "paddedFraction f d = take d f" by (simp add: paddedFraction_def)
  moreover have "(10::int) ^ length f = 10 ^ d * 10 ^ (length f - d)"
    using False by (simp flip: power_add)
  ultimately show ?thesis using BigInt_take [OF assms, of d] by simp
qed

lemma padded_eq: "take d (f @ replicate d (CHR ''0'')) = paddedFraction f d"
  by (simp add: paddedFraction_def min_def)

lemma length_paddedFraction: "length (paddedFraction f d) = d"
  by (simp add: paddedFraction_def)

lemma toRawAmount_dot:
  assumes w: "digits0 w" and f: "digits0 f"
  shows "toRawAmount (w @ CHR ''.'' # f) d = Inr (BigInt w * 10 ^ d + BigInt (paddedFraction f d))"
proof -
  let ?s = "w @ CHR ''.'' # f"
  have t: "trim ?s = ?s"
    using digits0_no_ws [OF w] digits0_no_ws [OF f] by (simp add: trim_id dot_not_ws)
  have sp: "split (CHR ''.'') ?s = [w, f]"
    using digits0_no_dot [OF w] digits0_no_dot [OF f] by (rule split_one_sep)
  have sw: "digits1 (if w = [] then ''0'' else w)"
    using w by (simp add: digits1_def digits0_def isDigit_def)
  show ?thesis
    unfolding toRawAmount_def Let_def t sp list.case BigInt_or0 padded_eq
    using sw f by simp
qed

lemma toRawAmount_whole:
  assumes w: "digits1 w"
  shows "toRawAmount w d = Inr (BigInt w * 10 ^ d)"
proof -
  have w0: "digits0 w" and ne: "w \<noteq> []" using w by (simp_all add: digits1_def digits0_def)
  have t: "trim w = w" using digits0_no_ws [OF w0] by (simp add: trim_id)
  have sp: "split (CHR ''.'') w = [w]" using digits0_no_dot [OF w0] by (rule split_no_sep)
  show ?thesis
    unfolding toRawAmount_def Let_def t sp list.case BigInt_or0
    using w ne by (simp add: digits0_def BigInt_zeros)
qed

lemma trim_ends:
  assumes "s \<noteq> []" and "\<not> isWhiteSpace (hd s)" and "\<not> isWhiteSpace (last s)"
  shows "trim s = s"
proof -
  have "dropWhile isWhiteSpace s = s" using assms(1,2) by (cases s) simp_all
  moreover have "dropWhile isWhiteSpace (rev s) = rev s"
    using assms(1,3) by (cases "rev s") (simp_all add: hd_rev [symmetric])
  ultimately show ?thesis by (simp add: trim_def)
qed

text \<open>
  Claim C4. The amount normalizer is meant to fail exactly when the trimmed input
  is empty or has a non-digit character outside a single optional decimal point,
  in particular on every input with more than one decimal point. The code never
  inspects what follows a second decimal point: when the first two pieces are digit
  strings the amount is accepted, with the value of those two pieces.
\<close>

theorem toRawAmount_second_point_accepted:
  assumes w: "digits0 w" and f: "digits0 f"
    and r: "rest = [] \<or> \<not> isWhiteSpace (last rest)"
  shows "toRawAmount (w @ CHR ''.'' # f @ CHR ''.'' # rest) d
           = Inr (BigInt w * 10 ^ d + BigInt (paddedFraction f d))"
proof -
  let ?s = "w @ CHR ''.'' # f @ CHR ''.'' # rest"
  have h: "\<not> isWhiteSpace (hd ?s)"
    using digits0_no_ws [OF w] by (cases w) (simp_all add: dot_not_ws)
  have l: "\<not> isWhiteSpace (last ?s)"
    using r by (auto simp: dot_not_ws)
  have t: "trim ?s = ?s" using h l by (intro trim_ends) simp_all
  obtain ps where sp: "split (CHR ''.'') ?s = w # f # ps"
    using split_two_pieces [OF digits0_no_dot [OF w] digits0_no_dot [OF f]] by blast
  have sw: "digits1 (if w = [] then ''0'' else w)"
    using w by (simp add: digits1_def digits0_def isDigit_def)
  show ?thesis
    unfolding toRawAmount_def Let_def t sp list.case BigInt_or0 padded_eq
    using sw f by simp
qed

text \<open>
  Claim C3. The amount normalizer maps "1.25" with 6 decimals to 1250000 and "5" with
  0 decimals to 5, and rejects the empty string and "1.2x". For every valid decimal
  string, that is digits, a decimal point and digits (either side may be empty) or a
  non-empty digit string alone, the fraction is right-padded with zeros to exactly
  \<open>d\<close> digits and truncated, never rounded, when longer (its value is the floor of
  the fraction scaled by \<open>10 ^ d\<close>), and the result is the integer part times
  \<open>10 ^ d\<close> plus the padded fraction, as an exact integer.
\<close>

theorem toRawAmount_normalizes:
  "toRawAmount ''1.25'' 6 = Inr 1250000
   \<and> toRawAmount ''5'' 0 = Inr 5
   \<and> toRawAmount [] 6 = Inl AmountRequired
   \<and> toRawAmount ''1.2x'' 2 = Inl AmountNotNumeric
   \<and> (digits0 w \<and> digits0 f \<longrightarrow>
        length (paddedFraction f d) = d
        \<and> BigInt (paddedFraction f d) = BigInt f * 10 ^ d div 10 ^ length f
        \<and> toRawAmount (w @ CHR ''.'' # f) d
            = Inr (BigInt w * 10 ^ d + BigInt (paddedFraction f d)))
   \<and> (digits1 w \<longrightarrow> toRawAmount w d = Inr (BigInt w * 10 ^ d))"
proof -
  have e1: "toRawAmount ''1.25'' 6 = Inr 1250000" by code_simp
  have e2: "toRawAmount ''5'' 0 = Inr 5" by code_simp
  have e3: "toRawAmount [] 6 = Inl AmountRequired" by code_simp
  have e4: "toRawAmount ''1.2x'' 2 = Inl AmountNotNumeric" by code_simp
  show ?thesis
    using e1 e2 e3 e4 length_paddedFraction [of f d] BigInt_paddedFraction [of f d]
      toRawAmount_dot [of w f d] toRawAmount_whole [of w d]
    by blast
qed

theorem toRawAmount_normalizes_witness:
  "digits0 ''12'' \<and> digits0 ''349'' \<and> digits1 ''12''
   \<and> paddedFraction ''349'' 2 = ''34''
   \<and> toRawAmount ''12.349'' 2 = Inr 1234
   \<and> toRawAmount ''12'' 2 = Inr 1200"
proof -
  have d: "digits0 ''12''" "digits0 ''349''" "digits1 ''12''" by code_simp+
  have p: "paddedFraction ''349'' 2 = ''34''" by code_simp
  have v: "BigInt ''12'' = 12" "BigInt ''34'' = 34" by code_simp+
  show ?thesis
    using toRawAmount_normalizes [of "''12''" "''349''" 2] d p v by simp
qed

theorem toRawAmount_second_point_accepted_witness:
  "digits0 ''1'' \<and> digits0 ''2'' \<and> \<not> isWhiteSpace (last ''3'') \<and> \<not> isWhiteSpace (last ''x'')
   \<and> toRawAmount ''1.2.3'' 2 = Inr 120 \<and> toRawAmount ''1.2.x'' 2 = Inr 120"
proof -
  have d: "digits0 ''1''" "digits0 ''2''" by code_simp+
  have l: "\<not> isWhiteSpace (last ''3'')" "\<not> isWhiteSpace (last ''x'')" by code_simp+
  have v: "BigInt ''1'' * 10 ^ 2 + BigInt (paddedFraction ''2'' 2) = 120" by code_simp
  show ?thesis
    using toRawAmount_second_point_accepted [of "''1''" "''2''" "''3''" 2]
      toRawAmount_second_point_accepted [of "''1''" "''2''" "''x''" 2] d l v
    by simp
qed
section \<open>Properties of \<open>sendWithRetry\<close>\<close>





lemma nextBh_replies [simp]:
  "sendRawReplies (snd (nextBh apiBase apiKey w)) = sendRawReplies w"
  by (simp add: nextBh_def fetchBlockhash_def Let_def split: blockhash_reply.split)

lemma nextBh_calls [simp]:
  "sendRawCalls (snd (nextBh apiBase apiKey w)) = sendRawCalls w"
  by (simp add: nextBh_def fetchBlockhash_def Let_def split: blockhash_reply.split)

lemma setTimeout_frame [simp]:
  "sendRawReplies (setTimeout ms w) = sendRawReplies w"
  "sendRawCalls (setTimeout ms w) = sendRawCalls w"
  by (simp_all add: setTimeout_def)

lemma loop_exhausted:
  "\<not> attempt \<le> maxRetries \<Longrightarrow>
   sendWithRetry_loop lib walletName signer apiBase apiKey getBlockhash maxRetries attempt tx w
     = (Inr (\<lparr>wallet = walletName, signature = None, error = Some ''exhausted retries''\<rparr>, tx), w)"
  by (subst sendWithRetry_loop.simps) simp

lemma loop_accepted:
  "attempt \<le> maxRetries \<Longrightarrow> postSendRaw lib apiBase apiKey tx w = (Inr sig, w1) \<Longrightarrow>
   sendWithRetry_loop lib walletName signer apiBase apiKey getBlockhash maxRetries attempt tx w
     = (Inr (\<lparr>wallet = walletName, signature = sig, error = None\<rparr>, tx), w1)"
  by (subst sendWithRetry_loop.simps) simp

lemma loop_plain_last:
  "postSendRaw lib apiBase apiKey tx w = (Inl msg, w1) \<Longrightarrow> \<not> needsHash msg \<Longrightarrow>
   sendWithRetry_loop lib walletName signer apiBase apiKey getBlockhash maxRetries maxRetries tx w
     = (Inr (\<lparr>wallet = walletName, signature = None, error = Some msg\<rparr>, tx), w1)"
  by (subst sendWithRetry_loop.simps) simp

lemma loop_plain_retry:
  "attempt < maxRetries \<Longrightarrow> postSendRaw lib apiBase apiKey tx w = (Inl msg, w1) \<Longrightarrow>
   \<not> needsHash msg \<Longrightarrow>
   sendWithRetry_loop lib walletName signer apiBase apiKey getBlockhash maxRetries attempt tx w
     = sendWithRetry_loop lib walletName signer apiBase apiKey getBlockhash maxRetries
         (attempt + 1) tx (setTimeout (150 * attempt) w1)"
  by (subst sendWithRetry_loop.simps) simp

lemma loop_refresh_throws:
  "attempt \<le> maxRetries \<Longrightarrow> postSendRaw lib apiBase apiKey tx w = (Inl msg, w1) \<Longrightarrow>
   needsHash msg \<Longrightarrow> getBlockhash w1 = (Inl e, w2) \<Longrightarrow>
   sendWithRetry_loop lib walletName signer apiBase apiKey getBlockhash maxRetries attempt tx w
     = (Inl e, w2)"
  by (subst sendWithRetry_loop.simps) simp

lemma loop_sign_throws:
  "attempt \<le> maxRetries \<Longrightarrow> postSendRaw lib apiBase apiKey tx w = (Inl msg, w1) \<Longrightarrow>
   needsHash msg \<Longrightarrow> getBlockhash w1 = (Inr fresh, w2) \<Longrightarrow>
   applyBlockhash lib tx signer fresh = Inl e \<Longrightarrow>
   sendWithRetry_loop lib walletName signer apiBase apiKey getBlockhash maxRetries attempt tx w
     = (Inl e, w2)"
  by (subst sendWithRetry_loop.simps) simp

lemma loop_stale_last:
  "postSendRaw lib apiBase apiKey tx w = (Inl msg, w1) \<Longrightarrow>
   needsHash msg \<Longrightarrow> getBlockhash w1 = (Inr fresh, w2) \<Longrightarrow>
   applyBlockhash lib tx signer fresh = Inr tx' \<Longrightarrow>
   sendWithRetry_loop lib walletName signer apiBase apiKey getBlockhash maxRetries maxRetries tx w
     = (Inr (\<lparr>wallet = walletName, signature = None, error = Some msg\<rparr>, tx'), w2)"
  by (subst sendWithRetry_loop.simps) simp

lemma loop_stale_retry:
  "attempt < maxRetries \<Longrightarrow> postSendRaw lib apiBase apiKey tx w = (Inl msg, w1) \<Longrightarrow>
   needsHash msg \<Longrightarrow> getBlockhash w1 = (Inr fresh, w2) \<Longrightarrow>
   applyBlockhash lib tx signer fresh = Inr tx' \<Longrightarrow>
   sendWithRetry_loop lib walletName signer apiBase apiKey getBlockhash maxRetries attempt tx w
     = sendWithRetry_loop lib walletName signer apiBase apiKey getBlockhash maxRetries
         (attempt + 1) tx' (setTimeout (150 * attempt) w2)"
  by (subst sendWithRetry_loop.simps) simp



lemma plainFailure_post:
  assumes "plainFailure (sendRawReplies w (sendRawCalls w))"
    and "serializeThrows lib tx = None"
  obtains msg where "attemptOutcome (sendRawReplies w (sendRawCalls w)) = Inl msg"
    and "\<not> needsHash msg"
    and "postSendRaw lib apiBase apiKey tx w
           = (Inl msg, w\<lparr>sendRawCalls := Suc (sendRawCalls w),
                          events := events w @ [Fetch (sendRawRequest apiBase apiKey tx)]\<rparr>)"
  using assms by (auto simp: plainFailure_def postSendRaw_def split: sum.splits)

lemma loop_all_plain:
  assumes "attempt \<le> maxRetries"
    and "serializeThrows lib tx = None"
    and "\<forall>j. j \<le> maxRetries - attempt \<longrightarrow> plainFailure (sendRawReplies w (sendRawCalls w + j))"
  shows "\<exists>msg. attemptOutcome (sendRawReplies w (sendRawCalls w + (maxRetries - attempt))) = Inl msg
           \<and> sendWithRetry_loop lib walletName signer apiBase apiKey getBlockhash maxRetries attempt tx w
             = (Inr (\<lparr>wallet = walletName, signature = None, error = Some msg\<rparr>, tx),
                w\<lparr>sendRawCalls := sendRawCalls w + Suc (maxRetries - attempt),
                  events := events w
                    @ concat (map (\<lambda>a. if a < maxRetries
                                        then [Fetch (sendRawRequest apiBase apiKey tx),
                                              SetTimeout (150 * a)]
                                        else [Fetch (sendRawRequest apiBase apiKey tx)])
                                  [attempt..<Suc maxRetries])\<rparr>)"
  using assms
proof (induction "maxRetries - attempt" arbitrary: attempt w)
  case 0
  then have eq: "attempt = maxRetries" by simp
  from "0.prems"(3) have "plainFailure (sendRawReplies w (sendRawCalls w))"
    by (metis add.right_neutral le0)
  then obtain msg where m: "attemptOutcome (sendRawReplies w (sendRawCalls w)) = Inl msg"
    and nh: "\<not> needsHash msg"
    and post: "postSendRaw lib apiBase apiKey tx w
           = (Inl msg, w\<lparr>sendRawCalls := Suc (sendRawCalls w),
                          events := events w @ [Fetch (sendRawRequest apiBase apiKey tx)]\<rparr>)"
    using "0.prems"(2) by (rule plainFailure_post)
  show ?case
    unfolding eq using m loop_plain_last [OF post nh, of walletName signer getBlockhash maxRetries]
    by simp
next
  case (Suc m)
  then have lt: "attempt < maxRetries" by simp
  from Suc.prems(3) have "plainFailure (sendRawReplies w (sendRawCalls w))"
    by (metis add.right_neutral le0)
  then obtain msg where nh: "\<not> needsHash msg"
    and post: "postSendRaw lib apiBase apiKey tx w
           = (Inl msg, w\<lparr>sendRawCalls := Suc (sendRawCalls w),
                          events := events w @ [Fetch (sendRawRequest apiBase apiKey tx)]\<rparr>)"
    using Suc.prems(2) by (rule plainFailure_post)
  let ?w1 = "w\<lparr>sendRawCalls := Suc (sendRawCalls w),
               events := events w @ [Fetch (sendRawRequest apiBase apiKey tx)]\<rparr>"
  let ?w2 = "setTimeout (150 * attempt) ?w1"
  have step: "sendWithRetry_loop lib walletName signer apiBase apiKey getBlockhash maxRetries attempt tx w
          = sendWithRetry_loop lib walletName signer apiBase apiKey getBlockhash maxRetries
              (attempt + 1) tx ?w2"
    by (rule loop_plain_retry [OF lt post nh])
  have m: "m = maxRetries - (attempt + 1)" using Suc.hyps(2) by simp
  have le: "attempt + 1 \<le> maxRetries" using lt by simp
  have sh: "\<forall>j. j \<le> maxRetries - (attempt + 1)
              \<longrightarrow> plainFailure (sendRawReplies ?w2 (sendRawCalls ?w2 + j))"
  proof (intro allI impI)
    fix j assume "j \<le> maxRetries - (attempt + 1)"
    then have "Suc j \<le> maxRetries - attempt" using lt by simp
    with Suc.prems(3) have "plainFailure (sendRawReplies w (sendRawCalls w + Suc j))" by blast
    then show "plainFailure (sendRawReplies ?w2 (sendRawCalls ?w2 + j))"
      by (simp add: setTimeout_def)
  qed
  have idx: "sendRawCalls ?w2 + (maxRetries - (attempt + 1)) = sendRawCalls w + (maxRetries - attempt)"
    using lt by (simp add: setTimeout_def)
  have upt: "[attempt..<Suc maxRetries] = attempt # [attempt + 1..<Suc maxRetries]"
    using lt by (simp add: upt_conv_Cons)
  from Suc.hyps(1) [OF m le Suc.prems(2) sh]
  obtain msg' where
    o: "attemptOutcome (sendRawReplies ?w2 (sendRawCalls ?w2 + (maxRetries - (attempt + 1)))) = Inl msg'"
    and r: "sendWithRetry_loop lib walletName signer apiBase apiKey getBlockhash maxRetries
              (attempt + 1) tx ?w2
            = (Inr (\<lparr>wallet = walletName, signature = None, error = Some msg'\<rparr>, tx),
               ?w2\<lparr>sendRawCalls := sendRawCalls ?w2 + Suc (maxRetries - (attempt + 1)),
                  events := events ?w2
                    @ concat (map (\<lambda>a. if a < maxRetries
                                        then [Fetch (sendRawRequest apiBase apiKey tx),
                                              SetTimeout (150 * a)]
                                        else [Fetch (sendRawRequest apiBase apiKey tx)])
                                  [attempt + 1..<Suc maxRetries])\<rparr>)"
    by blast
  have o': "attemptOutcome (sendRawReplies w (sendRawCalls w + (maxRetries - attempt))) = Inl msg'"
    using o unfolding idx by (simp add: setTimeout_def)
  show ?case
    apply (rule exI [of _ msg'])
    apply (rule conjI [OF o'])
    unfolding step r upt using lt
    by (simp add: setTimeout_def)
qed

text \<open>
  Claim C8. For a transaction that serializes, as those of the builder do: when
  each of the \<open>maxRetries\<close> attempts (at least one; 3 by default) fails with an
  error that is no staleness error, the run submits the transaction \<open>maxRetries\<close>
  times, waits 150 ms times the attempt number between consecutive attempts
  (linear backoff), fetches no hash, leaves the transaction as it was, and ends
  failed with the message of the last failure as its error.
\<close>

theorem sendWithRetry_exhausts:
  assumes "0 < maxRetries"
    and "serializeThrows lib tx = None"
    and "\<forall>j. j < maxRetries \<longrightarrow> plainFailure (sendRawReplies w (sendRawCalls w + j))"
  shows "\<exists>msg. attemptOutcome (sendRawReplies w (sendRawCalls w + (maxRetries - 1))) = Inl msg
           \<and> sendWithRetry lib tx walletName signer apiBase apiKey getBlockhash maxRetries w
             = (Inr (\<lparr>wallet = walletName, signature = None, error = Some msg\<rparr>, tx),
                w\<lparr>sendRawCalls := sendRawCalls w + maxRetries,
                  events := events w
                    @ linearBackoff (sendRawRequest apiBase apiKey tx) maxRetries\<rparr>)"
proof -
  have le: "1 \<le> maxRetries" using assms(1) by simp
  have h: "\<forall>j. j \<le> maxRetries - 1 \<longrightarrow> plainFailure (sendRawReplies w (sendRawCalls w + j))"
    using assms by auto
  have s: "Suc (maxRetries - 1) = maxRetries" using assms(1) by simp
  show ?thesis
    using loop_all_plain [OF le assms(2) h, of walletName signer apiBase apiKey getBlockhash]
    unfolding sendWithRetry_def linearBackoff_def s by simp
qed

subsection \<open>Patching a transaction of the builder\<close>

lemma sign_fields:
  assumes "sign lib tx signer = Inr tx'"
  shows "\<exists>s. signMessage lib signer (feePayer tx, instructions tx, recentBlockhash tx) = Inr s
             \<and> tx' = tx\<lparr>signatures := [(publicKey signer, s)]\<rparr>"
  using assms by (auto simp: sign_def split: sum.splits)

lemma applyBlockhash_Inr:
  "applyBlockhash lib tx signer info = Inr tx' \<longleftrightarrow>
     (\<exists>s. signMessage lib signer (feePayer tx, instructions tx, Some (blockhash info)) = Inr s
          \<and> tx' = tx\<lparr>recentBlockhash := Some (blockhash info),
                      txLastValidBlockHeight := Some (lastValidBlockHeight info),
                      signatures := [(publicKey signer, s)]\<rparr>)"
  by (auto simp: applyBlockhash_def sign_def Let_def split: sum.splits)

lemma applyBlockhash_Inl:
  "applyBlockhash lib tx signer info = Inl e \<longleftrightarrow>
     signMessage lib signer (feePayer tx, instructions tx, Some (blockhash info)) = Inl e"
  by (auto simp: applyBlockhash_def sign_def Let_def split: sum.splits)

text \<open>
  Setting a fresh hash on a transaction of the builder and signing it again gives
  what the builder gives for the fresh hash, a failure of the signing included.
\<close>

lemma applyBlockhash_twice:
  assumes "applyBlockhash lib tx0 signer bh = Inr tx"
  shows "applyBlockhash lib tx signer fresh = applyBlockhash lib tx0 signer fresh"
  using assms
  by (auto simp: applyBlockhash_def sign_def Let_def split: sum.splits)

lemma applyBlockhash_rebuild:
  assumes "buildTransferTx lib sender plan bh = Inr tx"
  shows "applyBlockhash lib tx sender fresh = buildTransferTx lib sender plan fresh"
proof -
  from assms obtain tx3 where
    a: "applyBlockhash lib tx3 sender bh = Inr tx"
    and b: "\<And>info. buildTransferTx lib sender plan info = applyBlockhash lib tx3 sender info"
    by (auto simp: buildTransferTx_def Let_def split: sum.splits option.splits if_splits)
  show ?thesis
    unfolding b by (rule applyBlockhash_twice [OF a])
qed

subsection \<open>The run between awaits agrees with the loop\<close>

text \<open>
  Carried through its awaits on its own, a run that starts at the loop test yields
  what the loop of \<open>sendWithRetry\<close> yields, in the same world: the steps used by the
  dispatcher are the steps of \<open>sendWithRetry\<close>.
\<close>

lemma finish_Resolved:
  "finish lib walletName signer apiBase apiKey getBlockhash maxRetries (Resolved r) w = (Inr r, w)"
  by (subst finish.simps) simp

lemma finish_Rejected:
  "finish lib walletName signer apiBase apiKey getBlockhash maxRetries (Rejected e) w = (Inl e, w)"
  by (subst finish.simps) simp

lemma finish_running:
  "running run \<Longrightarrow>
   advance lib walletName signer apiBase apiKey getBlockhash maxRetries run w = (run', w') \<Longrightarrow>
   finish lib walletName signer apiBase apiKey getBlockhash maxRetries run w
     = finish lib walletName signer apiBase apiKey getBlockhash maxRetries run' w'"
  by (subst finish.simps) (cases run; simp del: advance.simps)

lemma finish_loop:
  "finish lib walletName signer apiBase apiKey getBlockhash maxRetries
     (loopTest walletName maxRetries attempt tx) w
   = outcomeOnly
       (sendWithRetry_loop lib walletName signer apiBase apiKey getBlockhash maxRetries attempt tx w)"
proof (induction "Suc maxRetries - attempt" arbitrary: attempt tx w)
  case 0
  then have n: "\<not> attempt \<le> maxRetries" by simp
  then show ?case
    by (simp add: loopTest_def finish_Resolved loop_exhausted outcomeOnly_def)
next
  case (Suc m)
  then have le: "attempt \<le> maxRetries" by simp
  let ?fin = "finish lib walletName signer apiBase apiKey getBlockhash maxRetries"
  let ?loop = "sendWithRetry_loop lib walletName signer apiBase apiKey getBlockhash maxRetries"
  have IH: "\<And>tx' w'. attempt < maxRetries \<Longrightarrow>
              ?fin (Waiting attempt tx') w' = outcomeOnly (?loop (attempt + 1) tx' w')"
  proof -
    fix tx' w' assume lt: "attempt < maxRetries"
    have m: "m = Suc maxRetries - (attempt + 1)" using Suc.hyps(2) by simp
    have "?fin (Waiting attempt tx') w' = ?fin (loopTest walletName maxRetries (attempt + 1) tx') w'"
      by (rule finish_running) simp_all
    then show "?fin (Waiting attempt tx') w' = outcomeOnly (?loop (attempt + 1) tx' w')"
      using Suc.hyps(1) [OF m] by simp
  qed
  have after: "\<And>tx' msg w'. (case afterRefresh walletName maxRetries attempt tx' msg w' of
                                  (run, v) \<Rightarrow> ?fin run v)
                 = (if attempt = maxRetries
                    then (Inr \<lparr>wallet = walletName, signature = None, error = Some msg\<rparr>, w')
                    else outcomeOnly (?loop (attempt + 1) tx' (setTimeout (150 * attempt) w')))"
    using le IH by (auto simp: afterRefresh_def finish_Resolved)
  obtain x w1 where post: "postSendRaw lib apiBase apiKey tx w = (x, w1)"
    by (cases "postSendRaw lib apiBase apiKey tx w")
  have start: "?fin (loopTest walletName maxRetries attempt tx) w
                 = (case advance lib walletName signer apiBase apiKey getBlockhash maxRetries
                          (Submitting attempt tx) w of (run, v) \<Rightarrow> ?fin run v)"
    using le finish_running [of "Submitting attempt tx" lib walletName signer apiBase apiKey
        getBlockhash maxRetries w]
    by (cases "advance lib walletName signer apiBase apiKey getBlockhash maxRetries
                 (Submitting attempt tx) w") (simp add: loopTest_def del: advance.simps)
  show ?case
  proof (cases x)
    case (Inr sig)
    show ?thesis
      unfolding start using post Inr le
      by (simp add: finish_Resolved loop_accepted outcomeOnly_def)
  next
    case (Inl msg)
    note post' = post [unfolded Inl]
    show ?thesis
    proof (cases "needsHash msg")
      case False
      have "?fin (loopTest walletName maxRetries attempt tx) w
              = (case afterRefresh walletName maxRetries attempt tx msg w1 of
                   (run, v) \<Rightarrow> ?fin run v)"
        unfolding start using post' False by simp
      also have "\<dots> = outcomeOnly (?loop attempt tx w)"
        unfolding after
        using le loop_plain_last [OF post' False, of walletName signer getBlockhash]
          loop_plain_retry [OF _ post' False, of attempt maxRetries walletName signer getBlockhash]
        by (cases "attempt = maxRetries") (auto simp: outcomeOnly_def)
      finally show ?thesis .
    next
      case True
      obtain y w2 where g: "getBlockhash w1 = (y, w2)" by (cases "getBlockhash w1")
      have "?fin (loopTest walletName maxRetries attempt tx) w = ?fin (Refreshing attempt tx msg) w1"
        unfolding start using post' True by simp
      also have "\<dots> = (case advance lib walletName signer apiBase apiKey getBlockhash maxRetries
                          (Refreshing attempt tx msg) w1 of (run, v) \<Rightarrow> ?fin run v)"
        using finish_running [of "Refreshing attempt tx msg" lib walletName signer apiBase apiKey
            getBlockhash maxRetries w1]
        by (cases "advance lib walletName signer apiBase apiKey getBlockhash maxRetries
                 (Refreshing attempt tx msg) w1") (simp del: advance.simps)
      finally have r: "?fin (loopTest walletName maxRetries attempt tx) w
                = (case advance lib walletName signer apiBase apiKey getBlockhash maxRetries
                          (Refreshing attempt tx msg) w1 of (run, v) \<Rightarrow> ?fin run v)" .
      show ?thesis
      proof (cases y)
        case (Inl e)
        show ?thesis
          unfolding r using g Inl
            loop_refresh_throws [where getBlockhash = getBlockhash, OF le post' True g [unfolded Inl]]
          by (simp add: finish_Rejected outcomeOnly_def)
      next
        case (Inr fresh)
        note g' = g [unfolded Inr]
        show ?thesis
        proof (cases "applyBlockhash lib tx signer fresh")
          case (Inl e)
          show ?thesis
            unfolding r using g' Inl
              loop_sign_throws [where getBlockhash = getBlockhash, OF le post' True g' Inl]
            by (simp add: finish_Rejected outcomeOnly_def)
        next
          case a: (Inr tx2)
          have "?fin (loopTest walletName maxRetries attempt tx) w
                  = (case afterRefresh walletName maxRetries attempt tx2 msg w2 of
                       (run, v) \<Rightarrow> ?fin run v)"
            unfolding r using g' a by simp
          also have "\<dots> = outcomeOnly (?loop attempt tx w)"
            unfolding after
            using le
              loop_stale_last [where getBlockhash = getBlockhash, OF post' True g' a,
                of walletName]
              loop_stale_retry [where getBlockhash = getBlockhash, OF _ post' True g' a,
                of attempt maxRetries walletName]
            by (cases "attempt = maxRetries") (auto simp: outcomeOnly_def)
          finally show ?thesis .
        qed
      qed
    qed
  qed
qed

section \<open>Properties of the batch dispatcher\<close>

subsection \<open>Steps of a run\<close>















subsection \<open>Admission to the pool\<close>











subsection \<open>Steps of the batch\<close>






lemma relayServesHashes_cong:
  "blockhashReplies w' = blockhashReplies w \<Longrightarrow> relayServesHashes w' = relayServesHashes w"
  by (simp add: relayServesHashes_def)


subsection \<open>The batch carried to the end\<close>

lemma runBatch_done: "\<not> list_ex active (tasks b) \<Longrightarrow> runBatch env sched b = b"
  by (subst runBatch.simps) simp

lemma runBatch_Nil:
  "list_ex active (tasks b) \<Longrightarrow>
   runBatch env [] b = runBatch env [] (batchStep env (firstActive (tasks b)) b)"
  by (subst runBatch.simps) simp

lemma runBatch_Cons:
  "list_ex active (tasks b) \<Longrightarrow>
   runBatch env (i # rest) b = runBatch env rest (batchStep env i b)"
  by (subst runBatch.simps) simp

















subsection \<open>The pool never holds more active runs than its size\<close>






text \<open>Every batch that \<open>runBatch\<close> passes through is reached by a schedule.\<close>

lemma runBatch_batchSteps: "\<exists>steps. runBatch env sched b = batchSteps env steps b"
proof (induction env sched b rule: runBatch.induct)
  case (1 env sched b)
  show ?case
  proof (cases "list_ex active (tasks b)")
    case False
    then have "runBatch env sched b = batchSteps env [] b" by (simp add: runBatch_done)
    then show ?thesis by blast
  next
    case True
    show ?thesis
    proof (cases sched)
      case Nil
      from "1.IH"(1) [OF True Nil] obtain steps where
        "runBatch env [] (batchStep env (firstActive (tasks b)) b)
           = batchSteps env steps (batchStep env (firstActive (tasks b)) b)" by blast
      then have "runBatch env sched b = batchSteps env (firstActive (tasks b) # steps) b"
        unfolding Nil runBatch_Nil [OF True] by simp
      then show ?thesis by blast
    next
      case (Cons i rest)
      from "1.IH"(2) [OF True Cons] obtain steps where
        "runBatch env rest (batchStep env i b) = batchSteps env steps (batchStep env i b)" by blast
      then have "runBatch env sched b = batchSteps env (i # steps) b"
        unfolding Cons runBatch_Cons [OF True] by simp
      then show ?thesis by blast
    qed
  qed
qed






section \<open>The claims on the concurrency limit, the balances and the builder\<close>

lemma u64Kept_small: "amount < 2 ^ 64 \<Longrightarrow> u64Kept amount = amount"
  by (subst u64Kept.simps) simp








text \<open>
  Claim C10. \<open>fetchBalances\<close> on an empty list of addresses returns the empty balance
  mapping and leaves the world as it was, so no call reaches the relay, for every
  \<open>apiBase\<close> and \<open>apiKey\<close>.
\<close>

theorem fetchBalances_empty: "fetchBalances [] apiBase apiKey w = (Inr Map.empty, w)"
  by (simp add: fetchBalances_def)

lemma u64Rate_Finite:
  assumes "u64Rate fee"
  obtains q where "fee = Finite q" "of_int \<lfloor>q\<rfloor> = q" "0 \<le> \<lfloor>q\<rfloor>" "\<lfloor>q\<rfloor> < 2 ^ 64"
proof -
  from assms obtain q where f: "fee = Finite q" and i: "of_int \<lfloor>q\<rfloor> = q"
    and r: "0 \<le> q" "q < 2 ^ 64"
    by (cases fee) (auto simp: u64Rate_def)
  from r(1) have "0 \<le> \<lfloor>q\<rfloor>" by simp
  moreover from r(2) have "\<lfloor>q\<rfloor> < 2 ^ 64" by (simp add: floor_less_iff)
  ultimately show ?thesis using f i that by blast
qed

lemma isPositive_truthy: "isPositive fee \<Longrightarrow> truthy fee"
  by (cases fee) simp_all

text \<open>
  Claim C9, as the code has it. For every signer, plan and reference hash for
  which the two token sub-accounts can be derived and the signing succeeds, with
  an amount from 0 up to, not including, 2 to the power 64 and a priority-fee
  rate that, when greater than 0, is a whole number in that range: the built
  transaction holds, in this order, a priority-fee instruction exactly when the
  plan's rate is greater than 0, the compute-budget ceiling of 200000 units, the
  idempotent creation of the destination's token sub-account, and the transfer of
  exactly \<open>amountRaw\<close> from the signer's sub-account to the destination's; the
  signer is the fee payer, the reference hash and its expiry height are set, and
  the transaction carries the signer's signature.
\<close>

theorem buildTransferTx_instructions:
  assumes lib: "encodesU64 lib"
    and f: "getAssociatedTokenAddress lib (mint plan) (publicKey sender) = Inr fromAta"
    and t: "getAssociatedTokenAddress lib (mint plan) (destination plan) = Inr toAta"
    and a: "0 \<le> amountRaw plan" "amountRaw plan < 2 ^ 64"
    and r: "\<And>fee. priorityFeeMicrolamports plan = Some fee \<Longrightarrow> isPositive fee \<Longrightarrow> u64Rate fee"
    and s: "signMessage lib sender
              (Some (publicKey sender), specInstructions sender plan fromAta toAta,
               Some (blockhash blockhashInfo)) = Inr sig"
  shows "buildTransferTx lib sender plan blockhashInfo
           = Inr \<lparr>instructions = specInstructions sender plan fromAta toAta,
                  feePayer = Some (publicKey sender),
                  recentBlockhash = Some (blockhash blockhashInfo),
                  txLastValidBlockHeight = Some (lastValidBlockHeight blockhashInfo),
                  signatures = [(publicKey sender, sig)]\<rparr>"
proof -
  have tr: "createTransferInstruction lib fromAta toAta (publicKey sender) (amountRaw plan)
              = Inr (TransferInstruction fromAta toAta (publicKey sender) (amountRaw plan))"
    using lib a unfolding encodesU64_def by blast
  show ?thesis
  proof (cases "priorityFeeMicrolamports plan")
    case None
    with s show ?thesis
      by (simp add: buildTransferTx_def f t tr Let_def specInstructions_def applyBlockhash_def
          sign_def add_def newTransaction_def)
  next
    case (Some fee)
    show ?thesis
    proof (cases "isPositive fee")
      case False
      with s Some show ?thesis
        by (cases fee)
          (simp_all add: buildTransferTx_def f t tr Let_def specInstructions_def
            applyBlockhash_def sign_def add_def newTransaction_def)
    next
      case True
      from r [OF Some True] obtain q where q: "fee = Finite q" "of_int \<lfloor>q\<rfloor> = q"
        "0 \<le> \<lfloor>q\<rfloor>" "\<lfloor>q\<rfloor> < 2 ^ 64"
        by (rule u64Rate_Finite)
      have "setComputeUnitPrice lib (Finite (of_int \<lfloor>q\<rfloor>)) = Inr (SetComputeUnitPrice \<lfloor>q\<rfloor>)"
        using lib q(3,4) unfolding encodesU64_def by blast
      then have p: "setComputeUnitPrice lib (Finite q) = Inr (SetComputeUnitPrice \<lfloor>q\<rfloor>)"
        by (simp only: q(2))
      from True q(1) have pos: "0 < q" by simp
      from s Some q(1) pos show ?thesis
        by (simp add: buildTransferTx_def f t tr p Let_def specInstructions_def
            applyBlockhash_def sign_def add_def newTransaction_def)
    qed
  qed
qed

lemma demoLib_encodesU64: "encodesU64 demoLib"
  by (simp add: encodesU64_def demoLib_def u64Kept_small)

theorem buildTransferTx_instructions_witness:
  "encodesU64 demoLib
   \<and> getAssociatedTokenAddress demoLib (mint demoPlan) (publicKey (keypair wallet1)) = Inr ''MINT/PK1''
   \<and> getAssociatedTokenAddress demoLib (mint demoPlan) (destination demoPlan) = Inr ''MINT/DEST''
   \<and> 0 \<le> amountRaw demoPlan \<and> amountRaw demoPlan < 2 ^ 64
   \<and> priorityFeeMicrolamports demoPlan = Some (Finite 5000) \<and> u64Rate (Finite 5000)
   \<and> specInstructions (keypair wallet1) demoPlan ''MINT/PK1'' ''MINT/DEST''
       = [SetComputeUnitPrice 5000, SetComputeUnitLimit 200000,
          CreateAssociatedTokenAccountIdempotent ''PK1'' ''MINT/DEST'' ''DEST'' ''MINT'',
          TransferInstruction ''MINT/PK1'' ''MINT/DEST'' ''PK1'' 1250000]
   \<and> buildTransferTx demoLib (keypair wallet1) demoPlan hash1 = Inr demoTx"
proof -
  have a: "getAssociatedTokenAddress demoLib (mint demoPlan) (publicKey (keypair wallet1))
             = Inr ''MINT/PK1''"
    and b: "getAssociatedTokenAddress demoLib (mint demoPlan) (destination demoPlan)
             = Inr ''MINT/DEST''"
    by (simp_all add: demoLib_def demoPlan_def wallet1_def)
  have r: "0 \<le> amountRaw demoPlan" "amountRaw demoPlan < 2 ^ 64"
    by (simp_all add: demoPlan_def)
  have p: "priorityFeeMicrolamports demoPlan = Some (Finite 5000)" by (simp add: demoPlan_def)
  have u: "u64Rate (Finite 5000)" by (simp add: u64Rate_def)
  have fee: "u64Rate fee" if "priorityFeeMicrolamports demoPlan = Some fee" for fee
    using that p u by simp
  have sp: "specInstructions (keypair wallet1) demoPlan ''MINT/PK1'' ''MINT/DEST''
       = [SetComputeUnitPrice 5000, SetComputeUnitLimit 200000,
          CreateAssociatedTokenAccountIdempotent ''PK1'' ''MINT/DEST'' ''DEST'' ''MINT'',
          TransferInstruction ''MINT/PK1'' ''MINT/DEST'' ''PK1'' 1250000]"
    by (simp add: specInstructions_def demoPlan_def wallet1_def)
  have s: "signMessage demoLib (keypair wallet1)
             (Some (publicKey (keypair wallet1)),
              specInstructions (keypair wallet1) demoPlan ''MINT/PK1'' ''MINT/DEST'',
              Some (blockhash hash1)) = Inr ''PK1/H1''"
    by (simp add: demoLib_def wallet1_def hash1_def)
  have "buildTransferTx demoLib (keypair wallet1) demoPlan hash1 = Inr demoTx"
    using buildTransferTx_instructions [OF demoLib_encodesU64 a b r fee s] unfolding sp
    by (simp add: demoTx_def wallet1_def hash1_def)
  with demoLib_encodesU64 a b r p u sp show ?thesis by simp
qed

text \<open>
  Claim C9 as stated fails for an amount or a rate that does not fit 64 bits. The
  amount normalizer yields 2 to the power 64 for the input below; the transfer
  instruction of the transaction built for that amount moves 2 to the power 60.
  For the rate 2 to the power 64 no transaction is built.
\<close>

theorem buildTransferTx_amount_truncated:
  "toRawAmount ''18446744073709551616'' 0 = Inr (2 ^ 64)
   \<and> buildTransferTx demoLib (keypair wallet1) (demoPlan\<lparr>amountRaw := 2 ^ 64\<rparr>) hash1
       = Inr (demoTx\<lparr>instructions :=
                [SetComputeUnitPrice 5000, SetComputeUnitLimit 200000,
                 CreateAssociatedTokenAccountIdempotent ''PK1'' ''MINT/DEST'' ''DEST'' ''MINT'',
                 TransferInstruction ''MINT/PK1'' ''MINT/DEST'' ''PK1'' (2 ^ 60)]\<rparr>)
   \<and> isl (buildTransferTx demoLib (keypair wallet1)
             (demoPlan\<lparr>priorityFeeMicrolamports := Some (Finite (2 ^ 64))\<rparr>) hash1)"
  by code_simp

section \<open>The claims on the signer run\<close>

lemma demoTx_built: "buildTransferTx demoLib (keypair wallet1) demoPlan hash1 = Inr demoTx"
  by code_simp

lemma demoTx_serializes: "serializeThrows demoLib demoTx = None"
  by code_simp



theorem sendWithRetry_exhausts_witness:
  "serializeThrows demoLib demoTx = None
   \<and> plainFailure (sendRawReplies failingRelay 0) \<and> plainFailure (sendRawReplies failingRelay 1)
   \<and> plainFailure (sendRawReplies failingRelay 2)
   \<and> fst (sendWithRetry demoLib demoTx ''w1'' (keypair wallet1) ''http://relay'' None
            (nextBh ''http://relay'' None) 3 failingRelay)
     = Inr (\<lparr>wallet = ''w1'', signature = None, error = Some ''Failed to fetch''\<rparr>, demoTx)
   \<and> events (snd (sendWithRetry demoLib demoTx ''w1'' (keypair wallet1) ''http://relay'' None
                    (nextBh ''http://relay'' None) 3 failingRelay))
     = [Fetch (sendRawRequest ''http://relay'' None demoTx), SetTimeout 150,
        Fetch (sendRawRequest ''http://relay'' None demoTx), SetTimeout 300,
        Fetch (sendRawRequest ''http://relay'' None demoTx)]"
proof -
  have n1: "\<not> needsHash ''insufficient funds''" and n2: "\<not> needsHash ''Failed to fetch''"
    by code_simp+
  have p: "\<And>n. plainFailure (sendRawReplies failingRelay n)"
    using n1 n2 by (simp add: failingRelay_def relay_def plainFailure_def attemptOutcome_def)
  have c: "sendRawCalls failingRelay = 0" "events failingRelay = []"
    by (simp_all add: failingRelay_def relay_def)
  have l: "attemptOutcome (sendRawReplies failingRelay (Suc (Suc 0))) = Inl ''Failed to fetch''"
    by (simp add: failingRelay_def relay_def attemptOutcome_def)
  have b: "linearBackoff r 3 = [Fetch r, SetTimeout 150, Fetch r, SetTimeout 300, Fetch r]" for r
    by (simp add: linearBackoff_def upt_rec)
  have "0 < (3::nat)" by simp
  from sendWithRetry_exhausts [OF this demoTx_serializes, of failingRelay "''w1''"
      "keypair wallet1" "''http://relay''" None "nextBh ''http://relay'' None"] p c l b
    demoTx_serializes
  show ?thesis by auto
qed

text \<open>
  Claim C7 as stated fails: \<open>sendWithRetry\<close> receives no plan and never calls the
  builder; after a staleness failure it changes the transaction object it was
  given. Started on the transaction the builder made with the first hash, a run
  whose first submission meets a staleness error leaves that same object with the
  second hash, its expiry height and a new signature, and it is that object which
  it submits again.
\<close>

theorem sendWithRetry_patches_in_place:
  "buildTransferTx demoLib (keypair wallet1) demoPlan hash1 = Inr demoTx
   \<and> recentBlockhash demoTx = Some ''H1'' \<and> signatures demoTx = [(''PK1'', ''PK1/H1'')]
   \<and> fst (sendWithRetry demoLib demoTx ''w1'' (keypair wallet1) ''http://relay'' None
            (nextBh ''http://relay'' None) 3 staleOnceRelay)
     = Inr (\<lparr>wallet = ''w1'', signature = Some ''5sig'', error = None\<rparr>,
            demoTx\<lparr>recentBlockhash := Some ''H2'', txLastValidBlockHeight := Some 200,
                   signatures := [(''PK1'', ''PK1/H2'')]\<rparr>)
   \<and> events (snd (sendWithRetry demoLib demoTx ''w1'' (keypair wallet1) ''http://relay'' None
                    (nextBh ''http://relay'' None) 3 staleOnceRelay))
     = [Fetch (sendRawRequest ''http://relay'' None demoTx),
        Fetch \<lparr>url = ''http://relay/blockhash'', httpMethod = ''GET'', headers = [], body = NoBody\<rparr>,
        SetTimeout 150,
        Fetch (sendRawRequest ''http://relay'' None
                 (demoTx\<lparr>recentBlockhash := Some ''H2'', txLastValidBlockHeight := Some 200,
                         signatures := [(''PK1'', ''PK1/H2'')]\<rparr>))]"
  by code_simp

text \<open>
  Claim C7, as the code has it. When an attempt on a transaction of the builder
  fails with a staleness error and the refresh yields a fresh reference hash, the
  run sets that hash and its expiry height on the transaction object it holds and
  signs it again with the same signer; instructions and fee payer are untouched,
  the only signature is the signer's under the message with the fresh hash, and
  the result is what the builder yields for the same signer and plan with the
  fresh hash. Unless the attempt was the last, the run then waits 150 ms times the
  attempt number and goes on to the next attempt with that object; after the last
  attempt it ends failed with the staleness message.
\<close>

theorem sendWithRetry_rebinds:
  assumes b: "buildTransferTx lib signer plan bh = Inr tx"
    and le: "attempt \<le> maxRetries"
    and p: "postSendRaw lib apiBase apiKey tx w = (Inl msg, w1)"
    and n: "needsHash msg"
    and g: "getBlockhash w1 = (Inr fresh, w2)"
    and s: "signMessage lib signer (feePayer tx, instructions tx, Some (blockhash fresh)) = Inr sig"
    and tx': "tx' = tx\<lparr>recentBlockhash := Some (blockhash fresh),
                       txLastValidBlockHeight := Some (lastValidBlockHeight fresh),
                       signatures := [(publicKey signer, sig)]\<rparr>"
  shows "applyBlockhash lib tx signer fresh = Inr tx'
         \<and> buildTransferTx lib signer plan fresh = Inr tx'
         \<and> sendWithRetry_loop lib walletName signer apiBase apiKey getBlockhash maxRetries attempt
             tx w
           = (if attempt = maxRetries
              then (Inr (\<lparr>wallet = walletName, signature = None, error = Some msg\<rparr>, tx'), w2)
              else sendWithRetry_loop lib walletName signer apiBase apiKey getBlockhash maxRetries
                     (attempt + 1) tx' (setTimeout (150 * attempt) w2))"
proof -
  have a: "applyBlockhash lib tx signer fresh = Inr tx'"
    unfolding applyBlockhash_Inr using s tx' by blast
  moreover have "buildTransferTx lib signer plan fresh = Inr tx'"
    using applyBlockhash_rebuild [OF b, of fresh] a by simp
  moreover have "sendWithRetry_loop lib walletName signer apiBase apiKey getBlockhash maxRetries
             attempt tx w
           = (if attempt = maxRetries
              then (Inr (\<lparr>wallet = walletName, signature = None, error = Some msg\<rparr>, tx'), w2)
              else sendWithRetry_loop lib walletName signer apiBase apiKey getBlockhash maxRetries
                     (attempt + 1) tx' (setTimeout (150 * attempt) w2))"
  proof (cases "attempt = maxRetries")
    case True
    show ?thesis
      unfolding True
      using loop_stale_last [where getBlockhash = getBlockhash, OF p n g a, of walletName maxRetries]
      by simp
  next
    case False
    with le have lt: "attempt < maxRetries" by simp
    show ?thesis
      using loop_stale_retry [where getBlockhash = getBlockhash, OF lt p n g a, of walletName] False
      by simp
  qed
  ultimately show ?thesis by blast
qed

theorem sendWithRetry_rebinds_witness:
  "buildTransferTx demoLib (keypair wallet1) demoPlan hash1 = Inr demoTx
   \<and> needsHash ''Blockhash not found''
   \<and> fst (postSendRaw demoLib ''http://relay'' None demoTx staleOnceRelay)
       = Inl ''Blockhash not found''
   \<and> signMessage demoLib (keypair wallet1)
       (feePayer demoTx, instructions demoTx, Some (blockhash hash2)) = Inr ''PK1/H2''
   \<and> applyBlockhash demoLib demoTx (keypair wallet1) hash2 = Inr patchedTx
   \<and> buildTransferTx demoLib (keypair wallet1) demoPlan hash2 = Inr patchedTx
   \<and> signatures patchedTx = [(''PK1'', ''PK1/H2'')]"
proof -
  let ?w1 = "snd (postSendRaw demoLib ''http://relay'' None demoTx staleOnceRelay)"
  let ?w2 = "snd (nextBh ''http://relay'' None ?w1)"
  have n: "needsHash ''Blockhash not found''" by code_simp
  have p: "fst (postSendRaw demoLib ''http://relay'' None demoTx staleOnceRelay)
             = Inl ''Blockhash not found''"
    by (simp add: postSendRaw_def demoTx_serializes staleOnceRelay_def relay_def
        attemptOutcome_def)
  then have p': "postSendRaw demoLib ''http://relay'' None demoTx staleOnceRelay
                   = (Inl ''Blockhash not found'', ?w1)"
    by (simp add: prod_eq_iff)
  have "fst (nextBh ''http://relay'' None ?w1) = Inr hash2"
    by (simp add: nextBh_def fetchBlockhash_def postSendRaw_def demoTx_serializes
        staleOnceRelay_def relay_def)
  then have g: "nextBh ''http://relay'' None ?w1 = (Inr hash2, ?w2)"
    by (simp add: prod_eq_iff)
  have s: "signMessage demoLib (keypair wallet1)
             (feePayer demoTx, instructions demoTx, Some (blockhash hash2)) = Inr ''PK1/H2''"
    by (simp add: demoLib_def wallet1_def demoTx_def hash2_def)
  have t: "patchedTx = demoTx\<lparr>recentBlockhash := Some (blockhash hash2),
                       txLastValidBlockHeight := Some (lastValidBlockHeight hash2),
                       signatures := [(publicKey (keypair wallet1), ''PK1/H2'')]\<rparr>"
    by (simp add: patchedTx_def hash2_def wallet1_def)
  have l: "(1::nat) \<le> 3" by simp
  from sendWithRetry_rebinds [where getBlockhash = "nextBh ''http://relay'' None",
      OF demoTx_built l p' n g s t]
    demoTx_built n p s
  show ?thesis
    by (simp add: patchedTx_def)
qed

section \<open>The claims on the batch\<close>





text \<open>
  Claim C2. No failure inside one signer's run should reach the dispatcher, the
  failure of a hash refresh during a staleness retry included. In the code
  \<open>await getBlockhash()\<close> stands in the \<open>catch\<close> block: with two signers, the first
  submission answered by a staleness error and the refresh refused with status 500,
  \<open>executeBatch\<close> as a whole rejects with the refresh's message, although the other
  signer's transaction was accepted.
\<close>

theorem executeBatch_refresh_failure_escapes:
  "fst (executeBatch demoLib [] [wallet1, wallet2] demoPlan (Finite 8) ''http://relay'' None
          refreshDownRelay)
     = Inl ''Blockhash fetch failed: 500''"
  by code_simp

end
